theory Spec2Isabelle
  imports Complex_Main
begin

section \<open>Values shared by all price feeds\<close>

text \<open>
  The model follows \<^verbatim>\<open>market_maker_keeper/price.py\<close>. Every method of a feed becomes a
  function that takes the object's fields as a record and returns the updated record
  together with the list of effects (log records, I/O calls, thread starts) the method
  performed, in the order of the source. What a method reads from its environment (the
  clock, the file system, an exchange, a contract) is an argument of the function.

  \<^item> \<^verbatim>\<open>time.time()\<close> is a \<open>real\<close>; an expiry is an \<open>int\<close> as the constructors assert.
  \<^item> A string is the list of its code points, which \<open>char\<close> limits to 0..255.
  \<^item> An exception is a value of type \<open>error\<close>, carried on the left of a sum.
\<close>

datatype error =
    PriceFeedNotSpecified
  | AssertionError
  | KeyError string
  | TypeError
  | JSONDecodeError
  | InvalidOperation
  | DivisionByZero
  | OSError
  | CallFailed

text \<open>
  Modelled from the spec: the numeric types \<^verbatim>\<open>Wad\<close> and \<^verbatim>\<open>Ray\<close> come from the library
  \<^verbatim>\<open>pymaker.numeric\<close>, which is not under src/. The spec has a price as an
  arbitrary-precision fixed-point quantity and the scaled price as base / scale. Here a
  \<open>Wad\<close> holds an integer number of units of \<^verbatim>\<open>1e-18\<close> and a \<open>Ray\<close> of units of
  \<^verbatim>\<open>1e-27\<close>, the scales the two names stand for; conversion and division round towards
  zero, and dividing by zero raises. No theorem below depends on the rounding except where
  it evaluates a quotient that is exact.
\<close>

datatype wad = Wad (wad_value: int)

datatype ray = Ray (ray_value: int)

definition quot :: "int \<Rightarrow> int \<Rightarrow> int" where
  "quot a b = sgn a * sgn b * (\<bar>a\<bar> div \<bar>b\<bar>)"

definition Wad_of_Ray :: "ray \<Rightarrow> wad" where
  "Wad_of_Ray r = Wad (quot (ray_value r) (10 ^ 9))"

definition wad_truediv :: "wad \<Rightarrow> wad \<Rightarrow> error + wad" where
  "wad_truediv a b =
     (if wad_value b = 0 then Inl DivisionByZero
      else Inr (Wad (quot (wad_value a * 10 ^ 18) (wad_value b))))"

text \<open>
  The objects \<^verbatim>\<open>json.loads\<close> and \<^verbatim>\<open>json.load\<close> return. A dictionary is the list of its
  items, looked up from the front.
\<close>

datatype pyobj =
    PyNone
  | PyBool bool
  | PyInt int
  | PyFloat real
  | PyStr string
  | PyList "pyobj list"
  | PyDict "(string \<times> pyobj) list"

text \<open>\<^verbatim>\<open>obj[key]\<close> with a string key: only a dictionary that has the key answers.\<close>

fun getitem :: "pyobj \<Rightarrow> string \<Rightarrow> error + pyobj" where
  "getitem (PyDict items) k =
     (case map_of items k of None \<Rightarrow> Inl (KeyError k) | Some v \<Rightarrow> Inr v)"
| "getitem _ k = Inl TypeError"

text \<open>
  \<^verbatim>\<open>Wad.from_number\<close> is library code as well: it parses a number or a decimal string and
  raises on anything else. The functions that call it take it as the parameter
  \<open>from_number\<close> of this type.
\<close>

type_synonym from_number = "pyobj \<Rightarrow> error + wad"

subsection \<open>Effects\<close>

datatype level = DEBUG | INFO | WARNING

datatype message =
    UsingFixedPrice wad
  | ReadPriceFrom wad
  | PriceFeedUpdated wad
  | FailedToRead error
  | HasExpired
  | BecameAvailable
  | FetchedPrice wad
  | FailedToGetPrice nat
  | PleaseCheckSetzer
  | PriceFeedIs wad
  | UnknownMessageType
  | InvalidMessage
  | FailedToFetchTicker error

datatype io =
    IsFile
  | OpenFile
  | GetMTime
  | SetzerPrice
  | BiboxTicker
  | ReadAsInt
  | VoxPar
  | TubPip

datatype effect = Log level message | IO io | StartThread

text \<open>The staleness-transition records among the effects of a run.\<close>

fun is_transition :: "effect \<Rightarrow> bool" where
  "is_transition (Log _ HasExpired) = True"
| "is_transition (Log _ BecameAvailable) = True"
| "is_transition _ = False"

definition transitions :: "effect list \<Rightarrow> effect list" where
  "transitions es = filter is_transition es"

fun is_io :: "effect \<Rightarrow> bool" where
  "is_io (IO _) = True"
| "is_io _ = False"

section \<open>SetzerPriceFeed\<close>

record setzer_feed =
  setzer_source :: string
  setzer_expiry :: int
  setzer_price :: "wad option"
  setzer_retries :: nat
  setzer_timestamp :: real
  setzer_expired :: bool

definition SetzerPriceFeed_init :: "string \<Rightarrow> int \<Rightarrow> setzer_feed \<times> effect list" where
  "SetzerPriceFeed_init source expiry =
     (\<lparr>setzer_source = source, setzer_expiry = expiry, setzer_price = None,
       setzer_retries = 0, setzer_timestamp = 0, setzer_expired = True\<rparr>,
      [StartThread])"

text \<open>
  \<^verbatim>\<open>_fetch_price\<close>: \<open>fetched\<close> is what \<^verbatim>\<open>Setzer().price(self.source)\<close> returned or raised,
  \<open>now\<close> what \<^verbatim>\<open>time.time()\<close> returned.
\<close>

definition SetzerPriceFeed_fetch_price ::
  "error + wad \<Rightarrow> real \<Rightarrow> setzer_feed \<Rightarrow> setzer_feed \<times> effect list" where
  "SetzerPriceFeed_fetch_price fetched now self =
     (case fetched of
        Inr p \<Rightarrow>
          (let self1 = self\<lparr>setzer_price := Some p, setzer_retries := 0,
                             setzer_timestamp := now\<rparr>
           in if setzer_expired self1
              then (self1\<lparr>setzer_expired := False\<rparr>,
                    [IO SetzerPrice, Log DEBUG (FetchedPrice p), Log INFO BecameAvailable])
              else (self1, [IO SetzerPrice, Log DEBUG (FetchedPrice p)]))
      | Inl e \<Rightarrow>
          (let self1 = self\<lparr>setzer_retries := setzer_retries self + 1\<rparr>
           in if setzer_retries self1 > 10
              then (self1, [IO SetzerPrice,
                            Log WARNING (FailedToGetPrice (setzer_retries self1)),
                            Log WARNING PleaseCheckSetzer])
              else (self1, [IO SetzerPrice])))"

definition SetzerPriceFeed_get_price ::
  "real \<Rightarrow> setzer_feed \<Rightarrow> wad option \<times> setzer_feed \<times> effect list" where
  "SetzerPriceFeed_get_price now self =
     (if now - setzer_timestamp self > real_of_int (setzer_expiry self)
      then (if \<not> setzer_expired self
            then (None, self\<lparr>setzer_expired := True\<rparr>, [Log WARNING HasExpired])
            else (None, self, []))
      else (setzer_price self, self, []))"

text \<open>
  The background thread and the callers of \<^verbatim>\<open>get_price\<close> act on the same object. A history
  of the object is a list of such actions, each run to its end before the next starts.
\<close>

datatype setzer_op = SetzerFetch "error + wad" real | SetzerGetPrice real

fun setzer_step :: "setzer_op \<Rightarrow> setzer_feed \<Rightarrow> setzer_feed \<times> effect list" where
  "setzer_step (SetzerFetch fetched now) self = SetzerPriceFeed_fetch_price fetched now self"
| "setzer_step (SetzerGetPrice now) self = snd (SetzerPriceFeed_get_price now self)"

fun setzer_run :: "setzer_op list \<Rightarrow> setzer_feed \<Rightarrow> setzer_feed \<times> effect list" where
  "setzer_run [] self = (self, [])"
| "setzer_run (op # ops) self =
     (let (self1, es1) = setzer_step op self;
          (self2, es2) = setzer_run ops self1
      in (self2, es1 @ es2))"

section \<open>FilePriceFeed\<close>

record file_feed =
  file_filename :: string
  file_expiry :: int
  file_price :: "wad option"
  file_timestamp :: real
  file_expired :: bool

definition FilePriceFeed_init :: "string \<Rightarrow> int \<Rightarrow> file_feed \<times> effect list" where
  "FilePriceFeed_init filename expiry =
     (\<lparr>file_filename = filename, file_expiry = expiry, file_price = None,
       file_timestamp = 0, file_expired = True\<rparr>,
      [])"

text \<open>
  What the file system answers during one \<^verbatim>\<open>_read_price\<close>: \<^verbatim>\<open>os.path.isfile\<close>, then
  \<^verbatim>\<open>open\<close> with \<^verbatim>\<open>json.load\<close> (an object, or the exception either raised), then
  \<^verbatim>\<open>os.path.getmtime\<close>.
\<close>

record fs_obs =
  isfile :: bool
  json_load :: "error + pyobj"
  getmtime :: "error + real"

text \<open>
  \<^verbatim>\<open>_read_price\<close>. The \<^verbatim>\<open>except Exception\<close> clause only logs, so an exception leaves the
  fields as the statements before it left them: untouched when the file cannot be opened
  or parsed, the price alone assigned when \<^verbatim>\<open>getmtime\<close> raises.
\<close>

definition FilePriceFeed_read_price ::
  "from_number \<Rightarrow> fs_obs \<Rightarrow> file_feed \<Rightarrow> file_feed \<times> effect list" where
  "FilePriceFeed_read_price from_number fs self =
     (if \<not> isfile fs
      then (self\<lparr>file_price := None, file_timestamp := 0\<rparr>, [IO IsFile])
      else
        (case json_load fs of
           Inl e \<Rightarrow> (self, [IO IsFile, IO OpenFile, Log DEBUG (FailedToRead e)])
         | Inr obj \<Rightarrow>
            (case getitem obj ''price'' of
               Inl e \<Rightarrow> (self, [IO IsFile, IO OpenFile, Log DEBUG (FailedToRead e)])
             | Inr v \<Rightarrow>
                (case from_number v of
                   Inl e \<Rightarrow> (self, [IO IsFile, IO OpenFile, Log DEBUG (FailedToRead e)])
                 | Inr new_price \<Rightarrow>
                    (let es = [IO IsFile, IO OpenFile, Log DEBUG (ReadPriceFrom new_price)] @
                              (if file_price self = None \<or> Some new_price \<noteq> file_price self
                               then [Log INFO (PriceFeedUpdated new_price)] else []);
                         self1 = self\<lparr>file_price := Some new_price\<rparr>
                     in case getmtime fs of
                          Inl e \<Rightarrow> (self1, es @ [IO GetMTime, Log DEBUG (FailedToRead e)])
                        | Inr mtime \<Rightarrow>
                            (self1\<lparr>file_timestamp := mtime\<rparr>, es @ [IO GetMTime]))))))"

definition FilePriceFeed_get_price ::
  "from_number \<Rightarrow> fs_obs \<Rightarrow> real \<Rightarrow> file_feed \<Rightarrow> wad option \<times> file_feed \<times> effect list" where
  "FilePriceFeed_get_price from_number fs now self =
     (let (self1, es) = FilePriceFeed_read_price from_number fs self
      in if now - file_timestamp self1 > real_of_int (file_expiry self1)
         then (if \<not> file_expired self1
               then (None, self1\<lparr>file_expired := True\<rparr>, es @ [Log WARNING HasExpired])
               else (None, self1, es))
         else (if file_expired self1
               then (file_price self1, self1\<lparr>file_expired := False\<rparr>,
                     es @ [Log INFO BecameAvailable])
               else (file_price self1, self1, es)))"

datatype file_op = FileGetPrice fs_obs real

fun file_step :: "from_number \<Rightarrow> file_op \<Rightarrow> file_feed \<Rightarrow> file_feed \<times> effect list" where
  "file_step from_number (FileGetPrice fs now) self =
     snd (FilePriceFeed_get_price from_number fs now self)"

fun file_run :: "from_number \<Rightarrow> file_op list \<Rightarrow> file_feed \<Rightarrow> file_feed \<times> effect list" where
  "file_run from_number [] self = (self, [])"
| "file_run from_number (op # ops) self =
     (let (self1, es1) = file_step from_number op self;
          (self2, es2) = file_run from_number ops self1
      in (self2, es1 @ es2))"

section \<open>GdaxPriceFeed\<close>

record gdax_feed =
  gdax_ws_url :: string
  gdax_product_id :: string
  gdax_expiry :: int
  gdax_last_price :: "wad option"
  gdax_last_timestamp :: real
  gdax_expired :: bool

definition GdaxPriceFeed_init :: "string \<Rightarrow> string \<Rightarrow> int \<Rightarrow> gdax_feed \<times> effect list" where
  "GdaxPriceFeed_init ws_url product_id expiry =
     (\<lparr>gdax_ws_url = ws_url, gdax_product_id = product_id, gdax_expiry = expiry,
       gdax_last_price = None, gdax_last_timestamp = 0, gdax_expired = True\<rparr>,
      [StartThread])"

text \<open>
  \<^verbatim>\<open>_process_ticker\<close> can raise only while it evaluates the right-hand side of its first
  assignment, before any field is written.
\<close>

definition GdaxPriceFeed_process_ticker ::
  "from_number \<Rightarrow> pyobj \<Rightarrow> real \<Rightarrow> gdax_feed \<Rightarrow> error + gdax_feed \<times> effect list" where
  "GdaxPriceFeed_process_ticker from_number message_obj now self =
     (case getitem message_obj ''price'' of
        Inl e \<Rightarrow> Inl e
      | Inr v \<Rightarrow>
         (case from_number v of
            Inl e \<Rightarrow> Inl e
          | Inr p \<Rightarrow>
             (let self1 = self\<lparr>gdax_last_price := Some p, gdax_last_timestamp := now\<rparr>
              in if gdax_expired self1
                 then Inr (self1\<lparr>gdax_expired := False\<rparr>,
                           [Log DEBUG (PriceFeedIs p), Log INFO BecameAvailable])
                 else Inr (self1, [Log DEBUG (PriceFeedIs p)]))))"

definition GdaxPriceFeed_process_heartbeat :: "real \<Rightarrow> gdax_feed \<Rightarrow> gdax_feed" where
  "GdaxPriceFeed_process_heartbeat now self = self\<lparr>gdax_last_timestamp := now\<rparr>"

text \<open>
  The \<^verbatim>\<open>try\<close> block of \<^verbatim>\<open>_on_message\<close>; \<open>loaded\<close> is what \<^verbatim>\<open>json.loads(message)\<close>
  returned or raised.
\<close>

definition GdaxPriceFeed_on_message_try ::
  "from_number \<Rightarrow> error + pyobj \<Rightarrow> real \<Rightarrow> gdax_feed \<Rightarrow> error + gdax_feed \<times> effect list" where
  "GdaxPriceFeed_on_message_try from_number loaded now self =
     (case loaded of
        Inl e \<Rightarrow> Inl e
      | Inr message_obj \<Rightarrow>
         (case getitem message_obj ''type'' of
            Inl e \<Rightarrow> Inl e
          | Inr t \<Rightarrow>
             if t = PyStr ''subscriptions'' then Inr (self, [])
             else if t = PyStr ''ticker''
               then GdaxPriceFeed_process_ticker from_number message_obj now self
             else if t = PyStr ''heartbeat''
               then Inr (GdaxPriceFeed_process_heartbeat now self, [])
             else Inr (self, [Log WARNING UnknownMessageType])))"

text \<open>
  \<^verbatim>\<open>_on_message\<close>: the bare \<^verbatim>\<open>except\<close> logs whatever the block raised, so the callback
  returns to the socket loop on every message and has no error result.
\<close>

definition GdaxPriceFeed_on_message ::
  "from_number \<Rightarrow> error + pyobj \<Rightarrow> real \<Rightarrow> gdax_feed \<Rightarrow> gdax_feed \<times> effect list" where
  "GdaxPriceFeed_on_message from_number loaded now self =
     (case GdaxPriceFeed_on_message_try from_number loaded now self of
        Inl e \<Rightarrow> (self, [Log WARNING InvalidMessage])
      | Inr r \<Rightarrow> r)"

definition GdaxPriceFeed_get_price ::
  "real \<Rightarrow> gdax_feed \<Rightarrow> wad option \<times> gdax_feed \<times> effect list" where
  "GdaxPriceFeed_get_price now self =
     (if now - gdax_last_timestamp self > real_of_int (gdax_expiry self)
      then (if \<not> gdax_expired self
            then (None, self\<lparr>gdax_expired := True\<rparr>, [Log WARNING HasExpired])
            else (None, self, []))
      else (gdax_last_price self, self, []))"

datatype gdax_op = GdaxMessage "error + pyobj" real | GdaxGetPrice real

fun gdax_step :: "from_number \<Rightarrow> gdax_op \<Rightarrow> gdax_feed \<Rightarrow> gdax_feed \<times> effect list" where
  "gdax_step from_number (GdaxMessage loaded now) self =
     GdaxPriceFeed_on_message from_number loaded now self"
| "gdax_step from_number (GdaxGetPrice now) self = snd (GdaxPriceFeed_get_price now self)"

fun gdax_run :: "from_number \<Rightarrow> gdax_op list \<Rightarrow> gdax_feed \<Rightarrow> gdax_feed \<times> effect list" where
  "gdax_run from_number [] self = (self, [])"
| "gdax_run from_number (op # ops) self =
     (let (self1, es1) = gdax_step from_number op self;
          (self2, es2) = gdax_run from_number ops self1
      in (self2, es1 @ es2))"

section \<open>BiboxPriceFeed\<close>

record bibox_feed =
  bibox_pair :: string
  bibox_expiry :: int
  bibox_last_price :: "wad option"
  bibox_last_timestamp :: real
  bibox_expired :: bool

definition BiboxPriceFeed_init :: "string \<Rightarrow> int \<Rightarrow> bibox_feed \<times> effect list" where
  "BiboxPriceFeed_init pair expiry =
     (\<lparr>bibox_pair = pair, bibox_expiry = expiry, bibox_last_price = None,
       bibox_last_timestamp = 0, bibox_expired = True\<rparr>,
      [StartThread])"

text \<open>
  One round of the loop of \<^verbatim>\<open>_background_run\<close>, without its sleep. \<open>ticker_price\<close> is
  the mid price computed from \<^verbatim>\<open>bibox_api.ticker(self.pair)\<close>, or the exception that the
  call or the conversion raised; both come before the first assignment.
\<close>

definition BiboxPriceFeed_background_run_once ::
  "error + wad \<Rightarrow> real \<Rightarrow> bibox_feed \<Rightarrow> bibox_feed \<times> effect list" where
  "BiboxPriceFeed_background_run_once ticker_price now self =
     (case ticker_price of
        Inr p \<Rightarrow>
          (let self1 = self\<lparr>bibox_last_price := Some p, bibox_last_timestamp := now\<rparr>
           in if bibox_expired self1
              then (self1\<lparr>bibox_expired := False\<rparr>,
                    [IO BiboxTicker, Log DEBUG (PriceFeedIs p), Log INFO BecameAvailable])
              else (self1, [IO BiboxTicker, Log DEBUG (PriceFeedIs p)]))
      | Inl e \<Rightarrow> (self, [IO BiboxTicker, Log WARNING (FailedToFetchTicker e)]))"

definition BiboxPriceFeed_get_price ::
  "real \<Rightarrow> bibox_feed \<Rightarrow> wad option \<times> bibox_feed \<times> effect list" where
  "BiboxPriceFeed_get_price now self =
     (if now - bibox_last_timestamp self > real_of_int (bibox_expiry self)
      then (if \<not> bibox_expired self
            then (None, self\<lparr>bibox_expired := True\<rparr>, [Log WARNING HasExpired])
            else (None, self, []))
      else (bibox_last_price self, self, []))"

datatype bibox_op = BiboxFetch "error + wad" real | BiboxGetPrice real

fun bibox_step :: "bibox_op \<Rightarrow> bibox_feed \<Rightarrow> bibox_feed \<times> effect list" where
  "bibox_step (BiboxFetch ticker_price now) self =
     BiboxPriceFeed_background_run_once ticker_price now self"
| "bibox_step (BiboxGetPrice now) self = snd (BiboxPriceFeed_get_price now self)"

fun bibox_run :: "bibox_op list \<Rightarrow> bibox_feed \<Rightarrow> bibox_feed \<times> effect list" where
  "bibox_run [] self = (self, [])"
| "bibox_run (op # ops) self =
     (let (self1, es1) = bibox_step op self;
          (self2, es2) = bibox_run ops self1
      in (self2, es1 @ es2))"

section \<open>FixedPriceFeed, TubPriceFeed, ApplyTargetPrice\<close>

type_synonym address = string

text \<open>
  A \<^verbatim>\<open>Tub\<close> is known here by what its \<^verbatim>\<open>pip()\<close> call answers, a \<^verbatim>\<open>Vox\<close> by its address.
  What a contract answers when a price is asked for is part of the environment of the
  call, below.
\<close>

datatype tub = Tub (pip: "error + address")

datatype vox = Vox address

datatype price_feed =
    FixedPriceFeed wad
  | TubPriceFeed address
  | ApplyTargetPrice price_feed vox
  | FilePriceFeed file_feed
  | SetzerPriceFeed setzer_feed
  | GdaxPriceFeed gdax_feed

definition FixedPriceFeed_init :: "wad \<Rightarrow> price_feed \<times> effect list" where
  "FixedPriceFeed_init fixed_price =
     (FixedPriceFeed fixed_price, [Log INFO (UsingFixedPrice fixed_price)])"

definition TubPriceFeed_init :: "tub \<Rightarrow> (error + price_feed) \<times> effect list" where
  "TubPriceFeed_init t =
     (case pip t of
        Inl e \<Rightarrow> (Inl e, [IO TubPip])
      | Inr a \<Rightarrow> (Inr (TubPriceFeed a), [IO TubPip]))"

text \<open>
  The environment of one \<^verbatim>\<open>get_price()\<close> call: the clock, the file system, and what the
  contracts answer (\<^verbatim>\<open>ds_value.read_as_int()\<close>, \<^verbatim>\<open>vox.par()\<close>) or raise.
\<close>

record env =
  env_now :: real
  env_fs :: fs_obs
  env_read_as_int :: "address \<Rightarrow> error + int"
  env_par :: "vox \<Rightarrow> error + ray"

text \<open>
  \<^verbatim>\<open>get_price\<close> of every subclass of \<^verbatim>\<open>PriceFeed\<close>. The result is the returned price
  (\<open>None\<close> for Python's \<^verbatim>\<open>None\<close>) or the exception that left the call, then the object
  after the call and the effects of the call.
\<close>

fun get_price ::
  "from_number \<Rightarrow> env \<Rightarrow> price_feed \<Rightarrow> (error + wad option) \<times> price_feed \<times> effect list" where
  "get_price from_number ev (FixedPriceFeed fixed_price) =
     (Inr (Some fixed_price), FixedPriceFeed fixed_price, [])"
| "get_price from_number ev (TubPriceFeed ds_value) =
     (case env_read_as_int ev ds_value of
        Inl e \<Rightarrow> (Inl e, TubPriceFeed ds_value, [IO ReadAsInt])
      | Inr v \<Rightarrow> (Inr (Some (Wad v)), TubPriceFeed ds_value, [IO ReadAsInt]))"
| "get_price from_number ev (ApplyTargetPrice price_feed vx) =
     (case get_price from_number ev price_feed of
        (Inl e, pf1, es) \<Rightarrow> (Inl e, ApplyTargetPrice pf1 vx, es)
      | (Inr None, pf1, es) \<Rightarrow> (Inr None, ApplyTargetPrice pf1 vx, es)
      | (Inr (Some price), pf1, es) \<Rightarrow>
          (case env_par ev vx of
             Inl e \<Rightarrow> (Inl e, ApplyTargetPrice pf1 vx, es @ [IO VoxPar])
           | Inr par \<Rightarrow>
               (case wad_truediv price (Wad_of_Ray par) of
                  Inl e \<Rightarrow> (Inl e, ApplyTargetPrice pf1 vx, es @ [IO VoxPar])
                | Inr q \<Rightarrow> (Inr (Some q), ApplyTargetPrice pf1 vx, es @ [IO VoxPar]))))"
| "get_price from_number ev (FilePriceFeed self) =
     (let (r, self1, es) = FilePriceFeed_get_price from_number (env_fs ev) (env_now ev) self
      in (Inr r, FilePriceFeed self1, es))"
| "get_price from_number ev (SetzerPriceFeed self) =
     (let (r, self1, es) = SetzerPriceFeed_get_price (env_now ev) self
      in (Inr r, SetzerPriceFeed self1, es))"
| "get_price from_number ev (GdaxPriceFeed self) =
     (let (r, self1, es) = GdaxPriceFeed_get_price (env_now ev) self
      in (Inr r, GdaxPriceFeed self1, es))"

section \<open>PriceFeedFactory\<close>

text \<open>
  \<^verbatim>\<open>str.lower()\<close> on code points below 256: the capital letters are A to Z and the
  Latin-1 capitals \<^verbatim>\<open>0xC0\<close> to \<^verbatim>\<open>0xDE\<close> without the multiplication sign \<^verbatim>\<open>0xD7\<close>, each 32
  below its small letter.
\<close>

definition char_lower :: "char \<Rightarrow> char" where
  "char_lower c =
     (let n = (of_char c :: nat)
      in if (65 \<le> n \<and> n \<le> 90) \<or> (192 \<le> n \<and> n \<le> 222 \<and> n \<noteq> 215)
         then char_of (n + 32) else c)"

definition lower :: "string \<Rightarrow> string" where
  "lower s = map char_lower s"

definition startswith :: "string \<Rightarrow> string \<Rightarrow> bool" where
  "startswith s p = (take (length p) s = p)"

text \<open>
  \<^verbatim>\<open>create_price_feed\<close>. The result is the feed or the exception raised, with the effects of
  the constructors that ran. \<open>None\<close> stands for an argument that is \<^verbatim>\<open>None\<close>. The exception of
  the last branch is \<^verbatim>\<open>Exception("'--price-feed' not specified, but no 'Tub' available to
  default to")\<close>.
\<close>

definition create_price_feed ::
  "from_number \<Rightarrow> string option \<Rightarrow> int \<Rightarrow> tub option \<Rightarrow> vox option
     \<Rightarrow> (error + price_feed) \<times> effect list" where
  "create_price_feed from_number price_feed_argument price_feed_expiry_argument tb vx =
     (case price_feed_argument of
        Some arg \<Rightarrow>
          if lower arg = ''gdax-websocket''
          then (let (self, es) = GdaxPriceFeed_init ''wss://ws-feed.gdax.com'' ''ETH-USD''
                                   price_feed_expiry_argument
                in (Inr (GdaxPriceFeed self), es))
          else if startswith arg ''fixed:''
          then (case from_number (PyStr (drop 6 arg)) of
                  Inl e \<Rightarrow> (Inl e, [])
                | Inr fixed_price \<Rightarrow>
                    (let (pf, es) = FixedPriceFeed_init fixed_price in (Inr pf, es)))
          else if startswith arg ''file:''
          then (let (self, es) = FilePriceFeed_init (drop 5 arg) price_feed_expiry_argument
                in (Inr (FilePriceFeed self), es))
          else (let (self, es) = SetzerPriceFeed_init arg price_feed_expiry_argument
                in (Inr (SetzerPriceFeed self), es))
      | None \<Rightarrow>
          (case tb of
             Some t \<Rightarrow> TubPriceFeed_init t
           | None \<Rightarrow> (Inl PriceFeedNotSpecified, [])))"

section \<open>What the claims speak of\<close>

subsection \<open>The reading a history has published\<close>

text \<open>
  The spec's reading is a pair of a price and the instant it was observed at, empty
  (\<open>(None, 0)\<close>) until the background task publishes. For the polled feeds a successful
  fetch publishes its price with the instant of the fetch.
\<close>

fun setzer_published :: "wad option \<times> real \<Rightarrow> setzer_op list \<Rightarrow> wad option \<times> real" where
  "setzer_published r [] = r"
| "setzer_published r (SetzerFetch (Inr p) t # ops) = setzer_published (Some p, t) ops"
| "setzer_published r (SetzerFetch (Inl e) t # ops) = setzer_published r ops"
| "setzer_published r (SetzerGetPrice t # ops) = setzer_published r ops"

fun bibox_published :: "wad option \<times> real \<Rightarrow> bibox_op list \<Rightarrow> wad option \<times> real" where
  "bibox_published r [] = r"
| "bibox_published r (BiboxFetch (Inr p) t # ops) = bibox_published (Some p, t) ops"
| "bibox_published r (BiboxFetch (Inl e) t # ops) = bibox_published r ops"
| "bibox_published r (BiboxGetPrice t # ops) = bibox_published r ops"

text \<open>
  The kinds of inbound frames of the streaming protocol: a frame is a JSON text with a
  \<^verbatim>\<open>type\<close> discriminator; a ticker carries a \<^verbatim>\<open>price\<close> field that converts to a price.
  A text that is no JSON, has no discriminator, or is a ticker without a usable price is
  malformed.
\<close>

datatype gdax_kind = Ticker wad | Heartbeat | Subscriptions | Unrecognized | Malformed

definition gdax_message_kind :: "from_number \<Rightarrow> error + pyobj \<Rightarrow> gdax_kind" where
  "gdax_message_kind from_number loaded =
     (case loaded of
        Inl e \<Rightarrow> Malformed
      | Inr obj \<Rightarrow>
         (case getitem obj ''type'' of
            Inl e \<Rightarrow> Malformed
          | Inr t \<Rightarrow>
             if t = PyStr ''ticker''
             then (case getitem obj ''price'' of
                     Inl e \<Rightarrow> Malformed
                   | Inr v \<Rightarrow> (case from_number v of Inl e \<Rightarrow> Malformed | Inr p \<Rightarrow> Ticker p))
             else if t = PyStr ''heartbeat'' then Heartbeat
             else if t = PyStr ''subscriptions'' then Subscriptions
             else Unrecognized))"

text \<open>A ticker publishes price and instant, a heartbeat refreshes the instant only.\<close>

fun gdax_published ::
  "from_number \<Rightarrow> wad option \<times> real \<Rightarrow> gdax_op list \<Rightarrow> wad option \<times> real" where
  "gdax_published from_number r [] = r"
| "gdax_published from_number r (GdaxMessage loaded t # ops) =
     gdax_published from_number
       (case gdax_message_kind from_number loaded of
          Ticker p \<Rightarrow> (Some p, t)
        | Heartbeat \<Rightarrow> (fst r, t)
        | _ \<Rightarrow> r) ops"
| "gdax_published from_number r (GdaxGetPrice t # ops) = gdax_published from_number r ops"

text \<open>A read of the file that finds no file, or no price in it.\<close>

definition file_reads_nothing :: "from_number \<Rightarrow> fs_obs \<Rightarrow> bool" where
  "file_reads_nothing from_number fs =
     (if \<not> isfile fs then True
      else (case json_load fs of
              Inl e \<Rightarrow> True
            | Inr obj \<Rightarrow>
               (case getitem obj ''price'' of
                  Inl e \<Rightarrow> True
                | Inr v \<Rightarrow> (case from_number v of Inl e \<Rightarrow> True | Inr p \<Rightarrow> False))))"

subsection \<open>Transition records in turn\<close>

text \<open>
  Starting from a feed whose flag is \<open>expired\<close>, the transition records of a run come in
  turn when the first is the one that leaves this flag and each next one leaves the flag
  the previous one set.
\<close>

fun alternates :: "bool \<Rightarrow> effect list \<Rightarrow> bool" where
  "alternates expired [] = True"
| "alternates expired (e # es) =
     (e = (if expired then Log INFO BecameAvailable else Log WARNING HasExpired)
      \<and> alternates (\<not> expired) es)"

text \<open>
  The record a step owes to the log: none when it leaves the flag as it was, one when it
  flips it.
\<close>

definition flip_record :: "bool \<Rightarrow> bool \<Rightarrow> effect list" where
  "flip_record before after =
     (if after = before then []
      else if before then [Log INFO BecameAvailable] else [Log WARNING HasExpired])"

subsection \<open>The field writes of a publication, one at a time\<close>

text \<open>
  The background thread publishes a reading by separate assignments to the fields of the
  object, and no lock is taken anywhere in the module. Each assignment is one write; a
  \<^verbatim>\<open>get_price()\<close> of another thread may run before the first write, between two writes or
  after the last. The lists below are the writes of the successful path of each publisher,
  in the order of the source.
\<close>

fun observable_states :: "('s \<Rightarrow> 's) list \<Rightarrow> 's \<Rightarrow> 's list" where
  "observable_states [] s = [s]"
| "observable_states (w # ws) s = s # observable_states ws (w s)"

definition SetzerPriceFeed_fetch_price_writes ::
  "wad \<Rightarrow> real \<Rightarrow> (setzer_feed \<Rightarrow> setzer_feed) list" where
  "SetzerPriceFeed_fetch_price_writes p now =
     [\<lambda>self. self\<lparr>setzer_price := Some p\<rparr>,
      \<lambda>self. self\<lparr>setzer_retries := 0\<rparr>,
      \<lambda>self. self\<lparr>setzer_timestamp := now\<rparr>,
      \<lambda>self. if setzer_expired self then self\<lparr>setzer_expired := False\<rparr> else self]"

definition GdaxPriceFeed_process_ticker_writes ::
  "wad \<Rightarrow> real \<Rightarrow> (gdax_feed \<Rightarrow> gdax_feed) list" where
  "GdaxPriceFeed_process_ticker_writes p now =
     [\<lambda>self. self\<lparr>gdax_last_price := Some p\<rparr>,
      \<lambda>self. self\<lparr>gdax_last_timestamp := now\<rparr>,
      \<lambda>self. if gdax_expired self then self\<lparr>gdax_expired := False\<rparr> else self]"

definition BiboxPriceFeed_background_run_writes ::
  "wad \<Rightarrow> real \<Rightarrow> (bibox_feed \<Rightarrow> bibox_feed) list" where
  "BiboxPriceFeed_background_run_writes p now =
     [\<lambda>self. self\<lparr>bibox_last_price := Some p\<rparr>,
      \<lambda>self. self\<lparr>bibox_last_timestamp := now\<rparr>,
      \<lambda>self. if bibox_expired self then self\<lparr>bibox_expired := False\<rparr> else self]"

subsection \<open>Concrete inputs\<close>

text \<open>
  To run the model on concrete inputs, the conversion \<^verbatim>\<open>Wad.from_number\<close> is needed at a
  few arguments only: at the decimal strings below it yields the number times \<^verbatim>\<open>1e18\<close>, and
  it raises at a text that is no number. A contract that gives every caller the same
  answer is \<open>always\<close> that answer.
\<close>

definition from_number_sample :: from_number where
  "from_number_sample v =
     (if v = PyStr ''42.5'' then Inr (Wad 42500000000000000000)
      else if v = PyStr ''150.25'' then Inr (Wad 150250000000000000000)
      else if v = PyStr ''305.12'' then Inr (Wad 305120000000000000000)
      else Inl InvalidOperation)"

definition always :: "'a \<Rightarrow> 'b \<Rightarrow> 'a" where
  "always x y = x"

section \<open>The fields hold the published reading\<close>

lemma setzer_run_fields:
  "setzer_price (fst (setzer_run ops self)) =
     fst (setzer_published (setzer_price self, setzer_timestamp self) ops)
   \<and> setzer_timestamp (fst (setzer_run ops self)) =
     snd (setzer_published (setzer_price self, setzer_timestamp self) ops)
   \<and> setzer_expiry (fst (setzer_run ops self)) = setzer_expiry self"
proof (induction ops arbitrary: self)
  case Nil
  show ?case by simp
next
  case (Cons op ops)
  show ?case
  proof (cases op)
    case (SetzerFetch fetched now)
    then show ?thesis
      using Cons.IH [of "fst (SetzerPriceFeed_fetch_price fetched now self)"]
      by (cases fetched) (simp_all add: SetzerPriceFeed_fetch_price_def Let_def split_beta)
  next
    case (SetzerGetPrice now)
    then show ?thesis
      using Cons.IH [of "fst (snd (SetzerPriceFeed_get_price now self))"]
      by (simp add: SetzerPriceFeed_get_price_def split_beta)
  qed
qed

lemma bibox_run_fields:
  "bibox_last_price (fst (bibox_run ops self)) =
     fst (bibox_published (bibox_last_price self, bibox_last_timestamp self) ops)
   \<and> bibox_last_timestamp (fst (bibox_run ops self)) =
     snd (bibox_published (bibox_last_price self, bibox_last_timestamp self) ops)
   \<and> bibox_expiry (fst (bibox_run ops self)) = bibox_expiry self"
proof (induction ops arbitrary: self)
  case Nil
  show ?case by simp
next
  case (Cons op ops)
  show ?case
  proof (cases op)
    case (BiboxFetch fetched now)
    then show ?thesis
      using Cons.IH [of "fst (BiboxPriceFeed_background_run_once fetched now self)"]
      by (cases fetched)
        (simp_all add: BiboxPriceFeed_background_run_once_def Let_def split_beta)
  next
    case (BiboxGetPrice now)
    then show ?thesis
      using Cons.IH [of "fst (snd (BiboxPriceFeed_get_price now self))"]
      by (simp add: BiboxPriceFeed_get_price_def split_beta)
  qed
qed

lemma gdax_on_message_kind:
  "GdaxPriceFeed_on_message from_number loaded now self =
     (case gdax_message_kind from_number loaded of
        Ticker p \<Rightarrow>
          (self\<lparr>gdax_last_price := Some p, gdax_last_timestamp := now,
                 gdax_expired := False\<rparr>,
           Log DEBUG (PriceFeedIs p) #
             (if gdax_expired self then [Log INFO BecameAvailable] else []))
      | Heartbeat \<Rightarrow> (self\<lparr>gdax_last_timestamp := now\<rparr>, [])
      | Subscriptions \<Rightarrow> (self, [])
      | Unrecognized \<Rightarrow> (self, [Log WARNING UnknownMessageType])
      | Malformed \<Rightarrow> (self, [Log WARNING InvalidMessage]))"
  by (simp add: GdaxPriceFeed_on_message_def GdaxPriceFeed_on_message_try_def
      GdaxPriceFeed_process_ticker_def GdaxPriceFeed_process_heartbeat_def
      gdax_message_kind_def Let_def split: sum.splits)

lemma gdax_run_fields:
  "gdax_last_price (fst (gdax_run fn ops self)) =
     fst (gdax_published fn (gdax_last_price self, gdax_last_timestamp self) ops)
   \<and> gdax_last_timestamp (fst (gdax_run fn ops self)) =
     snd (gdax_published fn (gdax_last_price self, gdax_last_timestamp self) ops)
   \<and> gdax_expiry (fst (gdax_run fn ops self)) = gdax_expiry self"
proof (induction ops arbitrary: self)
  case Nil
  show ?case by simp
next
  case (Cons op ops)
  show ?case
  proof (cases op)
    case (GdaxMessage loaded now)
    then show ?thesis
      using Cons.IH [of "fst (GdaxPriceFeed_on_message fn loaded now self)"]
      by (cases "gdax_message_kind fn loaded")
        (simp_all add: gdax_on_message_kind split_beta)
  next
    case (GdaxGetPrice now)
    then show ?thesis
      using Cons.IH [of "fst (snd (GdaxPriceFeed_get_price now self))"]
      by (simp add: GdaxPriceFeed_get_price_def split_beta)
  qed
qed

section \<open>Expiry\<close>

text \<open>
  A call that runs while a publication is under way finds one of the states between the
  writes of the publisher. Whatever the state, the call is answered from the fields as
  they stand.
\<close>

lemma setzer_between_writes:
  "\<forall>s1 \<in> set (observable_states (SetzerPriceFeed_fetch_price_writes p t) s).
     fst (SetzerPriceFeed_get_price now s1) \<in>
       {if now - setzer_timestamp s > real_of_int (setzer_expiry s) then None
        else setzer_price s,
        if now - setzer_timestamp s > real_of_int (setzer_expiry s) then None else Some p,
        if now - t > real_of_int (setzer_expiry s) then None else Some p}"
  by (simp add: SetzerPriceFeed_fetch_price_writes_def SetzerPriceFeed_get_price_def)

lemma setzer_after_price_write:
  "fst (SetzerPriceFeed_get_price now
          (observable_states (SetzerPriceFeed_fetch_price_writes p t) s ! 1)) =
     (if now - setzer_timestamp s > real_of_int (setzer_expiry s) then None else Some p)"
  by (simp add: SetzerPriceFeed_fetch_price_writes_def SetzerPriceFeed_get_price_def)

lemma gdax_between_writes:
  "\<forall>g1 \<in> set (observable_states (GdaxPriceFeed_process_ticker_writes p t) g).
     fst (GdaxPriceFeed_get_price now g1) \<in>
       {if now - gdax_last_timestamp g > real_of_int (gdax_expiry g) then None
        else gdax_last_price g,
        if now - gdax_last_timestamp g > real_of_int (gdax_expiry g) then None else Some p,
        if now - t > real_of_int (gdax_expiry g) then None else Some p}"
  by (simp add: GdaxPriceFeed_process_ticker_writes_def GdaxPriceFeed_get_price_def)

lemma gdax_after_price_write:
  "fst (GdaxPriceFeed_get_price now
          (observable_states (GdaxPriceFeed_process_ticker_writes p t) g ! 1)) =
     (if now - gdax_last_timestamp g > real_of_int (gdax_expiry g) then None else Some p)"
  by (simp add: GdaxPriceFeed_process_ticker_writes_def GdaxPriceFeed_get_price_def)

lemma bibox_between_writes:
  "\<forall>b1 \<in> set (observable_states (BiboxPriceFeed_background_run_writes p t) b).
     fst (BiboxPriceFeed_get_price now b1) \<in>
       {if now - bibox_last_timestamp b > real_of_int (bibox_expiry b) then None
        else bibox_last_price b,
        if now - bibox_last_timestamp b > real_of_int (bibox_expiry b) then None else Some p,
        if now - t > real_of_int (bibox_expiry b) then None else Some p}"
  by (simp add: BiboxPriceFeed_background_run_writes_def BiboxPriceFeed_get_price_def)

lemma bibox_after_price_write:
  "fst (BiboxPriceFeed_get_price now
          (observable_states (BiboxPriceFeed_background_run_writes p t) b ! 1)) =
     (if now - bibox_last_timestamp b > real_of_int (bibox_expiry b) then None else Some p)"
  by (simp add: BiboxPriceFeed_background_run_writes_def BiboxPriceFeed_get_price_def)

text \<open>
  Claim C1, amended. For every feed that keeps an expiry and every call instant \<open>now\<close>, a
  \<^verbatim>\<open>get_price()\<close> that does not fall between the writes of a publication returns nothing
  when \<open>now\<close> minus the instant of the last observation exceeds the expiry, and the last
  published price otherwise. For the three feeds with a background thread the reading is
  the one their history published since construction; the file-backed feed takes its
  reading from the read that opens the call. A call that falls between the writes is
  answered for the old reading, for the new reading, or for the new price under the old
  timestamp; right after the price write it is the last: nothing when \<open>now\<close> minus the
  old timestamp exceeds the expiry, the new price otherwise.
\<close>

theorem get_price_expiry_rule:
  "fst (FilePriceFeed_get_price fn fs now self) =
     (let self1 = fst (FilePriceFeed_read_price fn fs self)
      in if now - file_timestamp self1 > real_of_int (file_expiry self) then None
         else file_price self1)
   \<and> fst (SetzerPriceFeed_get_price now
           (fst (setzer_run sops (fst (SetzerPriceFeed_init source expiry))))) =
     (let (price, observed_at) = setzer_published (None, 0) sops
      in if now - observed_at > real_of_int expiry then None else price)
   \<and> fst (GdaxPriceFeed_get_price now
           (fst (gdax_run fn gops (fst (GdaxPriceFeed_init ws_url product_id expiry))))) =
     (let (price, observed_at) = gdax_published fn (None, 0) gops
      in if now - observed_at > real_of_int expiry then None else price)
   \<and> fst (BiboxPriceFeed_get_price now
           (fst (bibox_run bops (fst (BiboxPriceFeed_init pair expiry))))) =
     (let (price, observed_at) = bibox_published (None, 0) bops
      in if now - observed_at > real_of_int expiry then None else price)
   \<and> (\<forall>s1 \<in> set (observable_states (SetzerPriceFeed_fetch_price_writes p t)
                      (fst (setzer_run sops (fst (SetzerPriceFeed_init source expiry))))).
        fst (SetzerPriceFeed_get_price now s1) \<in>
          (let (price, observed_at) = setzer_published (None, 0) sops
           in {if now - observed_at > real_of_int expiry then None else price,
               if now - observed_at > real_of_int expiry then None else Some p,
               if now - t > real_of_int expiry then None else Some p}))
   \<and> fst (SetzerPriceFeed_get_price now
           (observable_states (SetzerPriceFeed_fetch_price_writes p t)
              (fst (setzer_run sops (fst (SetzerPriceFeed_init source expiry)))) ! 1)) =
     (let (price, observed_at) = setzer_published (None, 0) sops
      in if now - observed_at > real_of_int expiry then None else Some p)
   \<and> (\<forall>g1 \<in> set (observable_states (GdaxPriceFeed_process_ticker_writes p t)
                      (fst (gdax_run fn gops
                              (fst (GdaxPriceFeed_init ws_url product_id expiry))))).
        fst (GdaxPriceFeed_get_price now g1) \<in>
          (let (price, observed_at) = gdax_published fn (None, 0) gops
           in {if now - observed_at > real_of_int expiry then None else price,
               if now - observed_at > real_of_int expiry then None else Some p,
               if now - t > real_of_int expiry then None else Some p}))
   \<and> fst (GdaxPriceFeed_get_price now
           (observable_states (GdaxPriceFeed_process_ticker_writes p t)
              (fst (gdax_run fn gops (fst (GdaxPriceFeed_init ws_url product_id expiry))))
            ! 1)) =
     (let (price, observed_at) = gdax_published fn (None, 0) gops
      in if now - observed_at > real_of_int expiry then None else Some p)
   \<and> (\<forall>b1 \<in> set (observable_states (BiboxPriceFeed_background_run_writes p t)
                      (fst (bibox_run bops (fst (BiboxPriceFeed_init pair expiry))))).
        fst (BiboxPriceFeed_get_price now b1) \<in>
          (let (price, observed_at) = bibox_published (None, 0) bops
           in {if now - observed_at > real_of_int expiry then None else price,
               if now - observed_at > real_of_int expiry then None else Some p,
               if now - t > real_of_int expiry then None else Some p}))
   \<and> fst (BiboxPriceFeed_get_price now
           (observable_states (BiboxPriceFeed_background_run_writes p t)
              (fst (bibox_run bops (fst (BiboxPriceFeed_init pair expiry)))) ! 1)) =
     (let (price, observed_at) = bibox_published (None, 0) bops
      in if now - observed_at > real_of_int expiry then None else Some p)"
proof -
  let ?s = "fst (setzer_run sops (fst (SetzerPriceFeed_init source expiry)))"
  let ?g = "fst (gdax_run fn gops (fst (GdaxPriceFeed_init ws_url product_id expiry)))"
  let ?b = "fst (bibox_run bops (fst (BiboxPriceFeed_init pair expiry)))"
  have expiry_kept:
    "file_expiry (fst (FilePriceFeed_read_price fn fs self)) = file_expiry self"
    by (simp add: FilePriceFeed_read_price_def Let_def split: sum.splits)
  have f0: "fst (FilePriceFeed_get_price fn fs now self) =
     (let self1 = fst (FilePriceFeed_read_price fn fs self)
      in if now - file_timestamp self1 > real_of_int (file_expiry self) then None
         else file_price self1)"
    using expiry_kept by (simp add: FilePriceFeed_get_price_def Let_def split_beta)
  have sf: "setzer_price ?s = fst (setzer_published (None, 0) sops)"
    "setzer_timestamp ?s = snd (setzer_published (None, 0) sops)"
    "setzer_expiry ?s = expiry"
    using setzer_run_fields [of sops "fst (SetzerPriceFeed_init source expiry)"]
    by (simp_all add: SetzerPriceFeed_init_def)
  have gf: "gdax_last_price ?g = fst (gdax_published fn (None, 0) gops)"
    "gdax_last_timestamp ?g = snd (gdax_published fn (None, 0) gops)"
    "gdax_expiry ?g = expiry"
    using gdax_run_fields [of fn gops "fst (GdaxPriceFeed_init ws_url product_id expiry)"]
    by (simp_all add: GdaxPriceFeed_init_def)
  have bf: "bibox_last_price ?b = fst (bibox_published (None, 0) bops)"
    "bibox_last_timestamp ?b = snd (bibox_published (None, 0) bops)"
    "bibox_expiry ?b = expiry"
    using bibox_run_fields [of bops "fst (BiboxPriceFeed_init pair expiry)"]
    by (simp_all add: BiboxPriceFeed_init_def)
  have s0: "fst (SetzerPriceFeed_get_price now ?s) =
     (let (price, observed_at) = setzer_published (None, 0) sops
      in if now - observed_at > real_of_int expiry then None else price)"
    by (simp add: SetzerPriceFeed_get_price_def sf split_beta)
  have g0: "fst (GdaxPriceFeed_get_price now ?g) =
     (let (price, observed_at) = gdax_published fn (None, 0) gops
      in if now - observed_at > real_of_int expiry then None else price)"
    by (simp add: GdaxPriceFeed_get_price_def gf split_beta)
  have b0: "fst (BiboxPriceFeed_get_price now ?b) =
     (let (price, observed_at) = bibox_published (None, 0) bops
      in if now - observed_at > real_of_int expiry then None else price)"
    by (simp add: BiboxPriceFeed_get_price_def bf split_beta)
  have s1: "\<forall>s1 \<in> set (observable_states (SetzerPriceFeed_fetch_price_writes p t) ?s).
        fst (SetzerPriceFeed_get_price now s1) \<in>
          (let (price, observed_at) = setzer_published (None, 0) sops
           in {if now - observed_at > real_of_int expiry then None else price,
               if now - observed_at > real_of_int expiry then None else Some p,
               if now - t > real_of_int expiry then None else Some p})"
    using setzer_between_writes [of p t ?s now] by (simp only: sf split_beta Let_def)
  have s2: "fst (SetzerPriceFeed_get_price now
           (observable_states (SetzerPriceFeed_fetch_price_writes p t) ?s ! 1)) =
     (let (price, observed_at) = setzer_published (None, 0) sops
      in if now - observed_at > real_of_int expiry then None else Some p)"
    using setzer_after_price_write [of now p t ?s] by (simp only: sf split_beta Let_def)
  have g1: "\<forall>g1 \<in> set (observable_states (GdaxPriceFeed_process_ticker_writes p t) ?g).
        fst (GdaxPriceFeed_get_price now g1) \<in>
          (let (price, observed_at) = gdax_published fn (None, 0) gops
           in {if now - observed_at > real_of_int expiry then None else price,
               if now - observed_at > real_of_int expiry then None else Some p,
               if now - t > real_of_int expiry then None else Some p})"
    using gdax_between_writes [of p t ?g now] by (simp only: gf split_beta Let_def)
  have g2: "fst (GdaxPriceFeed_get_price now
           (observable_states (GdaxPriceFeed_process_ticker_writes p t) ?g ! 1)) =
     (let (price, observed_at) = gdax_published fn (None, 0) gops
      in if now - observed_at > real_of_int expiry then None else Some p)"
    using gdax_after_price_write [of now p t ?g] by (simp only: gf split_beta Let_def)
  have b1: "\<forall>b1 \<in> set (observable_states (BiboxPriceFeed_background_run_writes p t) ?b).
        fst (BiboxPriceFeed_get_price now b1) \<in>
          (let (price, observed_at) = bibox_published (None, 0) bops
           in {if now - observed_at > real_of_int expiry then None else price,
               if now - observed_at > real_of_int expiry then None else Some p,
               if now - t > real_of_int expiry then None else Some p})"
    using bibox_between_writes [of p t ?b now] by (simp only: bf split_beta Let_def)
  have b2: "fst (BiboxPriceFeed_get_price now
           (observable_states (BiboxPriceFeed_background_run_writes p t) ?b ! 1)) =
     (let (price, observed_at) = bibox_published (None, 0) bops
      in if now - observed_at > real_of_int expiry then None else Some p)"
    using bibox_after_price_write [of now p t ?b] by (simp only: bf split_beta Let_def)
  from f0 s0 g0 b0 s1 s2 g1 g2 b1 b2 show ?thesis
    by (intro conjI)
qed

text \<open>
  A file read at 95 and asked at 100, a fetch at 95 followed by a failed one, a ticker at 80
  kept fresh by a heartbeat at 95, and a ticker of 80 that has gone stale at 100; then the
  same three feeds asked at 100 right after the price write of a publication of price 9.
\<close>

theorem get_price_expiry_rule_witness:
  "fst (FilePriceFeed_get_price from_number_sample
          \<lparr>isfile = True, json_load = Inr (PyDict [(''price'', PyStr ''150.25'')]),
           getmtime = Inr 95\<rparr>
          100 (fst (FilePriceFeed_init ''price.json'' 10))) = Some (Wad 150250000000000000000)
   \<and> fst (SetzerPriceFeed_get_price 100
           (fst (setzer_run [SetzerFetch (Inr (Wad 7)) 95, SetzerFetch (Inl CallFailed) 99]
                   (fst (SetzerPriceFeed_init ''ETHUSD'' 10))))) = Some (Wad 7)
   \<and> fst (GdaxPriceFeed_get_price 100
           (fst (gdax_run from_number_sample
                   [GdaxMessage (Inr (PyDict [(''type'', PyStr ''ticker''),
                                              (''price'', PyStr ''305.12'')])) 80,
                    GdaxMessage (Inr (PyDict [(''type'', PyStr ''heartbeat'')])) 95]
                   (fst (GdaxPriceFeed_init ''wss://ws-feed.gdax.com'' ''ETH-USD'' 10))))) =
       Some (Wad 305120000000000000000)
   \<and> fst (BiboxPriceFeed_get_price 100
           (fst (bibox_run [BiboxFetch (Inr (Wad 7)) 80]
                   (fst (BiboxPriceFeed_init ''ETH_DAI'' 10))))) = None
   \<and> fst (SetzerPriceFeed_get_price 100
           (observable_states (SetzerPriceFeed_fetch_price_writes (Wad 9) 100)
              (fst (setzer_run [SetzerFetch (Inr (Wad 7)) 95, SetzerFetch (Inl CallFailed) 99]
                      (fst (SetzerPriceFeed_init ''ETHUSD'' 10)))) ! 1)) = Some (Wad 9)
   \<and> fst (GdaxPriceFeed_get_price 100
           (observable_states (GdaxPriceFeed_process_ticker_writes (Wad 9) 100)
              (fst (gdax_run from_number_sample
                      [GdaxMessage (Inr (PyDict [(''type'', PyStr ''ticker''),
                                                 (''price'', PyStr ''305.12'')])) 80,
                       GdaxMessage (Inr (PyDict [(''type'', PyStr ''heartbeat'')])) 95]
                      (fst (GdaxPriceFeed_init ''wss://ws-feed.gdax.com'' ''ETH-USD'' 10))))
            ! 1)) = Some (Wad 9)
   \<and> fst (BiboxPriceFeed_get_price 100
           (observable_states (BiboxPriceFeed_background_run_writes (Wad 9) 100)
              (fst (bibox_run [BiboxFetch (Inr (Wad 7)) 80]
                      (fst (BiboxPriceFeed_init ''ETH_DAI'' 10)))) ! 1)) = None"
  using get_price_expiry_rule [where fn = from_number_sample
      and fs = "\<lparr>isfile = True, json_load = Inr (PyDict [(''price'', PyStr ''150.25'')]),
                 getmtime = Inr 95\<rparr>"
      and now = 100 and self = "fst (FilePriceFeed_init ''price.json'' 10)"
      and sops = "[SetzerFetch (Inr (Wad 7)) 95, SetzerFetch (Inl CallFailed) 99]"
      and source = "''ETHUSD''" and expiry = 10
      and gops = "[GdaxMessage (Inr (PyDict [(''type'', PyStr ''ticker''),
                                              (''price'', PyStr ''305.12'')])) 80,
                    GdaxMessage (Inr (PyDict [(''type'', PyStr ''heartbeat'')])) 95]"
      and ws_url = "''wss://ws-feed.gdax.com''" and product_id = "''ETH-USD''"
      and bops = "[BiboxFetch (Inr (Wad 7)) 80]" and pair = "''ETH_DAI''"
      and p = "Wad 9" and t = 100]
  by (simp add: FilePriceFeed_read_price_def FilePriceFeed_init_def from_number_sample_def
      gdax_message_kind_def)

text \<open>
  The feed has published price 1 at 100, and the price write of the publication of price 2
  at 105 is done: a call at 106 returns price 2, while the last reading published in full
  is price 1 of instant 100, still fresh at 106.
\<close>

theorem call_between_writes_counterexample:
  "fst (SetzerPriceFeed_get_price 106
         (observable_states (SetzerPriceFeed_fetch_price_writes (Wad 2) 105)
            (fst (setzer_run [SetzerFetch (Inr (Wad 1)) 100]
                    (fst (SetzerPriceFeed_init ''ETHUSD'' 10)))) ! 1)) = Some (Wad 2)
   \<and> setzer_published (None, 0) [SetzerFetch (Inr (Wad 1)) 100] = (Some (Wad 1), 100)"
  by (simp add: SetzerPriceFeed_fetch_price_writes_def SetzerPriceFeed_get_price_def
      SetzerPriceFeed_fetch_price_def SetzerPriceFeed_init_def)

text \<open>
  Claim C2, amended. A feed fed by a background thread (subprocess-backed, websocket-backed,
  exchange-REST-backed) that has not published a reading yet (the price unset and the
  timestamp still zero) returns nothing from \<^verbatim>\<open>get_price()\<close>, whatever the expiry and the
  call instant. The file-backed feed reads the file inside \<^verbatim>\<open>get_price()\<close>: without a
  reading before the call it returns nothing when this read finds no file or no price in
  it.
\<close>

theorem never_published_absent:
  "(setzer_price s = None \<and> setzer_timestamp s = 0
      \<longrightarrow> fst (SetzerPriceFeed_get_price now s) = None)
   \<and> (gdax_last_price g = None \<and> gdax_last_timestamp g = 0
      \<longrightarrow> fst (GdaxPriceFeed_get_price now g) = None)
   \<and> (bibox_last_price b = None \<and> bibox_last_timestamp b = 0
      \<longrightarrow> fst (BiboxPriceFeed_get_price now b) = None)
   \<and> (file_price f = None \<and> file_timestamp f = 0 \<and> file_reads_nothing fn fs
      \<longrightarrow> fst (FilePriceFeed_get_price fn fs now f) = None)"
proof (intro conjI impI)
  assume "setzer_price s = None \<and> setzer_timestamp s = 0"
  then show "fst (SetzerPriceFeed_get_price now s) = None"
    by (simp add: SetzerPriceFeed_get_price_def)
next
  assume "gdax_last_price g = None \<and> gdax_last_timestamp g = 0"
  then show "fst (GdaxPriceFeed_get_price now g) = None"
    by (simp add: GdaxPriceFeed_get_price_def)
next
  assume "bibox_last_price b = None \<and> bibox_last_timestamp b = 0"
  then show "fst (BiboxPriceFeed_get_price now b) = None"
    by (simp add: BiboxPriceFeed_get_price_def)
next
  assume a: "file_price f = None \<and> file_timestamp f = 0 \<and> file_reads_nothing fn fs"
  then have "file_price (fst (FilePriceFeed_read_price fn fs f)) = None"
    by (auto simp: FilePriceFeed_read_price_def file_reads_nothing_def
        split: sum.splits if_splits)
  then show "fst (FilePriceFeed_get_price fn fs now f) = None"
    by (simp add: FilePriceFeed_get_price_def split_beta)
qed

text \<open>
  At instant 5 with an expiry of 10 the new feeds are not even stale by the clock, and
  still have no price to return.
\<close>

theorem never_published_absent_witness:
  "fst (SetzerPriceFeed_get_price 5 (fst (SetzerPriceFeed_init ''ETHUSD'' 10))) = None
   \<and> fst (GdaxPriceFeed_get_price 5
           (fst (GdaxPriceFeed_init ''wss://ws-feed.gdax.com'' ''ETH-USD'' 10))) = None
   \<and> fst (BiboxPriceFeed_get_price 5 (fst (BiboxPriceFeed_init ''ETH_DAI'' 10))) = None
   \<and> fst (FilePriceFeed_get_price from_number_sample
           \<lparr>isfile = True, json_load = Inl JSONDecodeError, getmtime = Inr 4\<rparr> 5
           (fst (FilePriceFeed_init ''price.json'' 10))) = None"
  using never_published_absent [where s = "fst (SetzerPriceFeed_init ''ETHUSD'' 10)"
      and g = "fst (GdaxPriceFeed_init ''wss://ws-feed.gdax.com'' ''ETH-USD'' 10)"
      and b = "fst (BiboxPriceFeed_init ''ETH_DAI'' 10)"
      and f = "fst (FilePriceFeed_init ''price.json'' 10)"
      and fn = from_number_sample
      and fs = "\<lparr>isfile = True, json_load = Inl JSONDecodeError, getmtime = Inr 4\<rparr>"
      and now = 5]
  by (simp add: SetzerPriceFeed_init_def GdaxPriceFeed_init_def BiboxPriceFeed_init_def
      FilePriceFeed_init_def file_reads_nothing_def)

text \<open>
  A file-backed feed just constructed, price unset and timestamp zero, and a file that
  holds a price: the first call reads it and returns it.
\<close>

theorem new_file_feed_reads_price_counterexample:
  "file_price (fst (FilePriceFeed_init ''price.json'' 60)) = None
   \<and> file_timestamp (fst (FilePriceFeed_init ''price.json'' 60)) = 0
   \<and> fst (FilePriceFeed_get_price from_number_sample
           \<lparr>isfile = True, json_load = Inr (PyDict [(''price'', PyStr ''42.5'')]),
            getmtime = Inr 1000\<rparr>
           1003 (fst (FilePriceFeed_init ''price.json'' 60))) = Some (Wad 42500000000000000000)"
  by (simp add: FilePriceFeed_get_price_def FilePriceFeed_read_price_def FilePriceFeed_init_def
      from_number_sample_def)

section \<open>What a call to get_price touches\<close>

text \<open>
  Claim C3, amended. The feeds fed by a background thread (subprocess-backed,
  websocket-backed, exchange-REST-backed) and the fixed feed answer \<^verbatim>\<open>get_price()\<close> from
  memory: the call performs no I/O, reads nothing but the clock, logs at most the
  staleness transition, and changes no field but the expired flag. The file-backed feed
  has no background thread: every \<^verbatim>\<open>get_price()\<close> on it asks the file system in the caller.
\<close>

theorem get_price_from_memory:
  "(case SetzerPriceFeed_get_price now s of
      (r, s1, es) \<Rightarrow> (\<forall>e \<in> set es. is_transition e \<and> \<not> is_io e)
                    \<and> s1 = s\<lparr>setzer_expired := setzer_expired s1\<rparr>)
   \<and> (case GdaxPriceFeed_get_price now g of
      (r, g1, es) \<Rightarrow> (\<forall>e \<in> set es. is_transition e \<and> \<not> is_io e)
                    \<and> g1 = g\<lparr>gdax_expired := gdax_expired g1\<rparr>)
   \<and> (case BiboxPriceFeed_get_price now b of
      (r, b1, es) \<Rightarrow> (\<forall>e \<in> set es. is_transition e \<and> \<not> is_io e)
                    \<and> b1 = b\<lparr>bibox_expired := bibox_expired b1\<rparr>)
   \<and> get_price fn ev (FixedPriceFeed w) = (Inr (Some w), FixedPriceFeed w, [])
   \<and> get_price fn ev (SetzerPriceFeed s) =
       (case SetzerPriceFeed_get_price (env_now ev) s of
          (r, s1, es) \<Rightarrow> (Inr r, SetzerPriceFeed s1, es))
   \<and> get_price fn ev (GdaxPriceFeed g) =
       (case GdaxPriceFeed_get_price (env_now ev) g of
          (r, g1, es) \<Rightarrow> (Inr r, GdaxPriceFeed g1, es))
   \<and> IO IsFile \<in> set (snd (snd (get_price fn ev (FilePriceFeed f))))"
proof (intro conjI)
  show "case SetzerPriceFeed_get_price now s of
      (r, s1, es) \<Rightarrow> (\<forall>e \<in> set es. is_transition e \<and> \<not> is_io e)
                    \<and> s1 = s\<lparr>setzer_expired := setzer_expired s1\<rparr>"
    by (simp add: SetzerPriceFeed_get_price_def)
  show "case GdaxPriceFeed_get_price now g of
      (r, g1, es) \<Rightarrow> (\<forall>e \<in> set es. is_transition e \<and> \<not> is_io e)
                    \<and> g1 = g\<lparr>gdax_expired := gdax_expired g1\<rparr>"
    by (simp add: GdaxPriceFeed_get_price_def)
  show "case BiboxPriceFeed_get_price now b of
      (r, b1, es) \<Rightarrow> (\<forall>e \<in> set es. is_transition e \<and> \<not> is_io e)
                    \<and> b1 = b\<lparr>bibox_expired := bibox_expired b1\<rparr>"
    by (simp add: BiboxPriceFeed_get_price_def)
  show "get_price fn ev (FixedPriceFeed w) = (Inr (Some w), FixedPriceFeed w, [])"
    by simp
  show "get_price fn ev (SetzerPriceFeed s) =
       (case SetzerPriceFeed_get_price (env_now ev) s of
          (r, s1, es) \<Rightarrow> (Inr r, SetzerPriceFeed s1, es))"
    by simp
  show "get_price fn ev (GdaxPriceFeed g) =
       (case GdaxPriceFeed_get_price (env_now ev) g of
          (r, g1, es) \<Rightarrow> (Inr r, GdaxPriceFeed g1, es))"
    by simp
  have "IO IsFile \<in> set (snd (FilePriceFeed_read_price fn (env_fs ev) f))"
    by (simp add: FilePriceFeed_read_price_def Let_def split: sum.splits)
  then show "IO IsFile \<in> set (snd (snd (get_price fn ev (FilePriceFeed f))))"
    by (simp add: FilePriceFeed_get_price_def split_beta)
qed

text \<open>
  A subprocess-backed feed that fetched at 80 and is asked at 100.
\<close>

theorem get_price_from_memory_witness:
  "SetzerPriceFeed_get_price 100
     (fst (setzer_run [SetzerFetch (Inr (Wad 7)) 80]
             (fst (SetzerPriceFeed_init ''ETHUSD'' 10)))) =
     (None,
      \<lparr>setzer_source = ''ETHUSD'', setzer_expiry = 10, setzer_price = Some (Wad 7),
       setzer_retries = 0, setzer_timestamp = 80, setzer_expired = True\<rparr>,
      [Log WARNING HasExpired])
   \<and> list_all is_transition (snd (snd (SetzerPriceFeed_get_price 100
         (fst (setzer_run [SetzerFetch (Inr (Wad 7)) 80]
                 (fst (SetzerPriceFeed_init ''ETHUSD'' 10)))))))
   \<and> \<not> list_ex is_io (snd (snd (SetzerPriceFeed_get_price 100
         (fst (setzer_run [SetzerFetch (Inr (Wad 7)) 80]
                 (fst (SetzerPriceFeed_init ''ETHUSD'' 10)))))))"
  using get_price_from_memory [where now = 100
      and s = "fst (setzer_run [SetzerFetch (Inr (Wad 7)) 80]
                 (fst (SetzerPriceFeed_init ''ETHUSD'' 10)))"]
  by (simp add: SetzerPriceFeed_get_price_def SetzerPriceFeed_fetch_price_def
      SetzerPriceFeed_init_def split_beta)

text \<open>
  The effects of one \<^verbatim>\<open>get_price()\<close> on a file-backed feed: three file-system calls, and
  two log records that are no staleness transition.
\<close>

theorem file_get_price_reads_disk_counterexample:
  "snd (snd (get_price from_number_sample
       \<lparr>env_now = 100,
        env_fs = \<lparr>isfile = True, json_load = Inr (PyDict [(''price'', PyStr ''150.25'')]),
                  getmtime = Inr 95\<rparr>,
        env_read_as_int = always (Inl CallFailed), env_par = always (Inl CallFailed)\<rparr>
       (FilePriceFeed (fst (FilePriceFeed_init ''price.json'' 10))))) =
     [IO IsFile, IO OpenFile, Log DEBUG (ReadPriceFrom (Wad 150250000000000000000)),
      Log INFO (PriceFeedUpdated (Wad 150250000000000000000)), IO GetMTime,
      Log INFO BecameAvailable]"
  by (simp add: FilePriceFeed_get_price_def FilePriceFeed_read_price_def FilePriceFeed_init_def
      from_number_sample_def)

section \<open>Reading the file\<close>

text \<open>
  Claim C4, amended. For the file-backed feed, a read that finds no file unsets the reading
  (no price, zero timestamp); a read that fails to open the file or to get a price out of
  it leaves the reading as it was, unset only if it was unset before; a successful read
  stores the price with the file's modification time as timestamp, so that a file older
  than the expiry yields nothing although the read succeeded, and its price otherwise.
\<close>

theorem file_read_price_cases:
  "(\<not> isfile fs \<longrightarrow>
      fst (FilePriceFeed_read_price fn fs self) = self\<lparr>file_price := None, file_timestamp := 0\<rparr>)
   \<and> (isfile fs \<and> file_reads_nothing fn fs \<longrightarrow>
      fst (FilePriceFeed_read_price fn fs self) = self)
   \<and> (isfile fs \<and> json_load fs = Inr obj \<and> getitem obj ''price'' = Inr v \<and> fn v = Inr p
        \<and> getmtime fs = Inr mtime \<longrightarrow>
      fst (FilePriceFeed_read_price fn fs self) =
        self\<lparr>file_price := Some p, file_timestamp := mtime\<rparr>
      \<and> (now - mtime > real_of_int (file_expiry self) \<longrightarrow>
           fst (FilePriceFeed_get_price fn fs now self) = None)
      \<and> (\<not> now - mtime > real_of_int (file_expiry self) \<longrightarrow>
           fst (FilePriceFeed_get_price fn fs now self) = Some p))"
proof (intro conjI impI)
  assume "\<not> isfile fs"
  then show "fst (FilePriceFeed_read_price fn fs self) =
      self\<lparr>file_price := None, file_timestamp := 0\<rparr>"
    by (simp add: FilePriceFeed_read_price_def)
next
  assume "isfile fs \<and> file_reads_nothing fn fs"
  then show "fst (FilePriceFeed_read_price fn fs self) = self"
    by (auto simp: FilePriceFeed_read_price_def file_reads_nothing_def split: sum.splits)
next
  assume ok: "isfile fs \<and> json_load fs = Inr obj \<and> getitem obj ''price'' = Inr v
      \<and> fn v = Inr p \<and> getmtime fs = Inr mtime"
  then show rd: "fst (FilePriceFeed_read_price fn fs self) =
      self\<lparr>file_price := Some p, file_timestamp := mtime\<rparr>"
    by (simp add: FilePriceFeed_read_price_def Let_def)
  {
    assume "now - mtime > real_of_int (file_expiry self)"
    with rd show "fst (FilePriceFeed_get_price fn fs now self) = None"
      by (simp add: FilePriceFeed_get_price_def split_beta)
  }
  {
    assume "\<not> now - mtime > real_of_int (file_expiry self)"
    with rd show "fst (FilePriceFeed_get_price fn fs now self) = Some p"
      by (simp add: FilePriceFeed_get_price_def split_beta)
  }
qed

text \<open>
  A missing file, an unreadable file, and a file modified at 95 that is asked for at 1000
  and at 100.
\<close>

theorem file_read_price_cases_witness:
  "fst (FilePriceFeed_read_price from_number_sample
         \<lparr>isfile = False, json_load = Inl OSError, getmtime = Inl OSError\<rparr>
         \<lparr>file_filename = ''price.json'', file_expiry = 10, file_price = Some (Wad 1),
          file_timestamp = 95, file_expired = False\<rparr>) =
     \<lparr>file_filename = ''price.json'', file_expiry = 10, file_price = None,
      file_timestamp = 0, file_expired = False\<rparr>
   \<and> fst (FilePriceFeed_read_price from_number_sample
         \<lparr>isfile = True, json_load = Inl JSONDecodeError, getmtime = Inr 120\<rparr>
         \<lparr>file_filename = ''price.json'', file_expiry = 10, file_price = Some (Wad 1),
          file_timestamp = 95, file_expired = False\<rparr>) =
     \<lparr>file_filename = ''price.json'', file_expiry = 10, file_price = Some (Wad 1),
      file_timestamp = 95, file_expired = False\<rparr>
   \<and> fst (FilePriceFeed_get_price from_number_sample
         \<lparr>isfile = True, json_load = Inr (PyDict [(''price'', PyStr ''150.25'')]),
          getmtime = Inr 95\<rparr> 1000
         (fst (FilePriceFeed_init ''price.json'' 10))) = None
   \<and> fst (FilePriceFeed_get_price from_number_sample
         \<lparr>isfile = True, json_load = Inr (PyDict [(''price'', PyStr ''150.25'')]),
          getmtime = Inr 95\<rparr> 100
         (fst (FilePriceFeed_init ''price.json'' 10))) = Some (Wad 150250000000000000000)"
  using
    file_read_price_cases [where fn = from_number_sample
      and fs = "\<lparr>isfile = False, json_load = Inl OSError, getmtime = Inl OSError\<rparr>"
      and self = "\<lparr>file_filename = ''price.json'', file_expiry = 10, file_price = Some (Wad 1),
          file_timestamp = 95, file_expired = False\<rparr>"]
    file_read_price_cases [where fn = from_number_sample
      and fs = "\<lparr>isfile = True, json_load = Inl JSONDecodeError, getmtime = Inr 120\<rparr>"
      and self = "\<lparr>file_filename = ''price.json'', file_expiry = 10, file_price = Some (Wad 1),
          file_timestamp = 95, file_expired = False\<rparr>"]
    file_read_price_cases [where fn = from_number_sample
      and fs = "\<lparr>isfile = True, json_load = Inr (PyDict [(''price'', PyStr ''150.25'')]),
          getmtime = Inr 95\<rparr>"
      and obj = "PyDict [(''price'', PyStr ''150.25'')]" and v = "PyStr ''150.25''"
      and p = "Wad 150250000000000000000" and mtime = 95 and now = 1000
      and self = "fst (FilePriceFeed_init ''price.json'' 10)"]
    file_read_price_cases [where fn = from_number_sample
      and fs = "\<lparr>isfile = True, json_load = Inr (PyDict [(''price'', PyStr ''150.25'')]),
          getmtime = Inr 95\<rparr>"
      and obj = "PyDict [(''price'', PyStr ''150.25'')]" and v = "PyStr ''150.25''"
      and p = "Wad 150250000000000000000" and mtime = 95 and now = 100
      and self = "fst (FilePriceFeed_init ''price.json'' 10)"]
  by (simp add: file_reads_nothing_def from_number_sample_def FilePriceFeed_init_def)

text \<open>
  A file is read successfully, then its contents become unreadable: the feed keeps the
  price and the timestamp of the first read.
\<close>

theorem failed_read_keeps_reading_counterexample:
  "fst (FilePriceFeed_read_price from_number_sample
         \<lparr>isfile = True, json_load = Inl JSONDecodeError, getmtime = Inr 120\<rparr>
         (fst (file_run from_number_sample
                 [FileGetPrice \<lparr>isfile = True,
                                json_load = Inr (PyDict [(''price'', PyStr ''150.25'')]),
                                getmtime = Inr 95\<rparr> 100]
                 (fst (FilePriceFeed_init ''price.json'' 10))))) =
     \<lparr>file_filename = ''price.json'', file_expiry = 10,
      file_price = Some (Wad 150250000000000000000), file_timestamp = 95,
      file_expired = False\<rparr>"
  by (simp add: FilePriceFeed_get_price_def FilePriceFeed_read_price_def FilePriceFeed_init_def
      from_number_sample_def)

section \<open>Inbound messages\<close>

text \<open>
  Claim C5. The websocket feed dispatches every inbound message on its \<^verbatim>\<open>type\<close>: a ticker
  stores its price and the instant; a heartbeat stores the instant and leaves the price;
  a message of another type, or one that is malformed (no JSON, no type, a ticker without
  a usable price), is logged and changes no field. In each case the callback returns its
  result to the socket loop, which stays connected.
\<close>

theorem on_message_dispatch:
  "(loaded = Inr obj \<and> getitem obj ''type'' = Inr (PyStr ''ticker'')
      \<and> getitem obj ''price'' = Inr v \<and> fn v = Inr p \<longrightarrow>
    GdaxPriceFeed_on_message fn loaded now self =
      (self\<lparr>gdax_last_price := Some p, gdax_last_timestamp := now, gdax_expired := False\<rparr>,
       Log DEBUG (PriceFeedIs p) #
         (if gdax_expired self then [Log INFO BecameAvailable] else [])))
   \<and> (loaded = Inr obj \<and> getitem obj ''type'' = Inr (PyStr ''heartbeat'') \<longrightarrow>
    GdaxPriceFeed_on_message fn loaded now self = (self\<lparr>gdax_last_timestamp := now\<rparr>, []))
   \<and> (loaded = Inr obj \<and> getitem obj ''type'' = Inr t
      \<and> t \<noteq> PyStr ''subscriptions'' \<and> t \<noteq> PyStr ''ticker'' \<and> t \<noteq> PyStr ''heartbeat'' \<longrightarrow>
    GdaxPriceFeed_on_message fn loaded now self = (self, [Log WARNING UnknownMessageType]))
   \<and> (loaded = Inl e
      \<or> (loaded = Inr obj \<and> getitem obj ''type'' = Inl e)
      \<or> (loaded = Inr obj \<and> getitem obj ''type'' = Inr (PyStr ''ticker'')
          \<and> getitem obj ''price'' = Inl e)
      \<or> (loaded = Inr obj \<and> getitem obj ''type'' = Inr (PyStr ''ticker'')
          \<and> getitem obj ''price'' = Inr v \<and> fn v = Inl e) \<longrightarrow>
    GdaxPriceFeed_on_message fn loaded now self = (self, [Log WARNING InvalidMessage]))"
proof (intro conjI impI)
  assume "loaded = Inr obj \<and> getitem obj ''type'' = Inr (PyStr ''ticker'')
      \<and> getitem obj ''price'' = Inr v \<and> fn v = Inr p"
  then have "gdax_message_kind fn loaded = Ticker p"
    by (simp add: gdax_message_kind_def)
  then show "GdaxPriceFeed_on_message fn loaded now self =
      (self\<lparr>gdax_last_price := Some p, gdax_last_timestamp := now, gdax_expired := False\<rparr>,
       Log DEBUG (PriceFeedIs p) #
         (if gdax_expired self then [Log INFO BecameAvailable] else []))"
    by (simp add: gdax_on_message_kind)
next
  assume "loaded = Inr obj \<and> getitem obj ''type'' = Inr (PyStr ''heartbeat'')"
  then have "gdax_message_kind fn loaded = Heartbeat"
    by (simp add: gdax_message_kind_def)
  then show "GdaxPriceFeed_on_message fn loaded now self =
      (self\<lparr>gdax_last_timestamp := now\<rparr>, [])"
    by (simp add: gdax_on_message_kind)
next
  assume "loaded = Inr obj \<and> getitem obj ''type'' = Inr t
      \<and> t \<noteq> PyStr ''subscriptions'' \<and> t \<noteq> PyStr ''ticker'' \<and> t \<noteq> PyStr ''heartbeat''"
  then have "gdax_message_kind fn loaded = Unrecognized"
    by (simp add: gdax_message_kind_def)
  then show "GdaxPriceFeed_on_message fn loaded now self =
      (self, [Log WARNING UnknownMessageType])"
    by (simp add: gdax_on_message_kind)
next
  assume "loaded = Inl e
      \<or> (loaded = Inr obj \<and> getitem obj ''type'' = Inl e)
      \<or> (loaded = Inr obj \<and> getitem obj ''type'' = Inr (PyStr ''ticker'')
          \<and> getitem obj ''price'' = Inl e)
      \<or> (loaded = Inr obj \<and> getitem obj ''type'' = Inr (PyStr ''ticker'')
          \<and> getitem obj ''price'' = Inr v \<and> fn v = Inl e)"
  then have "gdax_message_kind fn loaded = Malformed"
    by (auto simp: gdax_message_kind_def)
  then show "GdaxPriceFeed_on_message fn loaded now self =
      (self, [Log WARNING InvalidMessage])"
    by (simp add: gdax_on_message_kind)
qed

text \<open>
  A ticker on a new feed, then a heartbeat, an error frame and a ticker with a bad price
  on a feed that holds a reading.
\<close>

theorem on_message_dispatch_witness:
  "GdaxPriceFeed_on_message from_number_sample
     (Inr (PyDict [(''type'', PyStr ''ticker''), (''price'', PyStr ''305.12'')])) 100
     (fst (GdaxPriceFeed_init ''wss://ws-feed.gdax.com'' ''ETH-USD'' 10)) =
     (\<lparr>gdax_ws_url = ''wss://ws-feed.gdax.com'', gdax_product_id = ''ETH-USD'',
       gdax_expiry = 10, gdax_last_price = Some (Wad 305120000000000000000),
       gdax_last_timestamp = 100, gdax_expired = False\<rparr>,
      [Log DEBUG (PriceFeedIs (Wad 305120000000000000000)), Log INFO BecameAvailable])
   \<and> GdaxPriceFeed_on_message from_number_sample
       (Inr (PyDict [(''type'', PyStr ''heartbeat'')])) 100
       \<lparr>gdax_ws_url = ''wss://ws-feed.gdax.com'', gdax_product_id = ''ETH-USD'',
        gdax_expiry = 10, gdax_last_price = Some (Wad 7),
        gdax_last_timestamp = 60, gdax_expired = False\<rparr> =
     (\<lparr>gdax_ws_url = ''wss://ws-feed.gdax.com'', gdax_product_id = ''ETH-USD'',
       gdax_expiry = 10, gdax_last_price = Some (Wad 7),
       gdax_last_timestamp = 100, gdax_expired = False\<rparr>, [])
   \<and> GdaxPriceFeed_on_message from_number_sample
       (Inr (PyDict [(''type'', PyStr ''error'')])) 100
       \<lparr>gdax_ws_url = ''wss://ws-feed.gdax.com'', gdax_product_id = ''ETH-USD'',
        gdax_expiry = 10, gdax_last_price = Some (Wad 7),
        gdax_last_timestamp = 60, gdax_expired = False\<rparr> =
     (\<lparr>gdax_ws_url = ''wss://ws-feed.gdax.com'', gdax_product_id = ''ETH-USD'',
       gdax_expiry = 10, gdax_last_price = Some (Wad 7),
       gdax_last_timestamp = 60, gdax_expired = False\<rparr>,
      [Log WARNING UnknownMessageType])
   \<and> GdaxPriceFeed_on_message from_number_sample
       (Inr (PyDict [(''type'', PyStr ''ticker''), (''price'', PyStr ''n/a'')])) 100
       \<lparr>gdax_ws_url = ''wss://ws-feed.gdax.com'', gdax_product_id = ''ETH-USD'',
        gdax_expiry = 10, gdax_last_price = Some (Wad 7),
        gdax_last_timestamp = 60, gdax_expired = False\<rparr> =
     (\<lparr>gdax_ws_url = ''wss://ws-feed.gdax.com'', gdax_product_id = ''ETH-USD'',
       gdax_expiry = 10, gdax_last_price = Some (Wad 7),
       gdax_last_timestamp = 60, gdax_expired = False\<rparr>,
      [Log WARNING InvalidMessage])"
  using
    on_message_dispatch [where fn = from_number_sample
      and loaded = "Inr (PyDict [(''type'', PyStr ''ticker''), (''price'', PyStr ''305.12'')])"
      and obj = "PyDict [(''type'', PyStr ''ticker''), (''price'', PyStr ''305.12'')]"
      and v = "PyStr ''305.12''" and p = "Wad 305120000000000000000" and now = 100
      and self = "fst (GdaxPriceFeed_init ''wss://ws-feed.gdax.com'' ''ETH-USD'' 10)"]
    on_message_dispatch [where fn = from_number_sample
      and loaded = "Inr (PyDict [(''type'', PyStr ''heartbeat'')])"
      and obj = "PyDict [(''type'', PyStr ''heartbeat'')]" and now = 100
      and self = "\<lparr>gdax_ws_url = ''wss://ws-feed.gdax.com'', gdax_product_id = ''ETH-USD'',
        gdax_expiry = 10, gdax_last_price = Some (Wad 7),
        gdax_last_timestamp = 60, gdax_expired = False\<rparr>"]
    on_message_dispatch [where fn = from_number_sample
      and loaded = "Inr (PyDict [(''type'', PyStr ''error'')])"
      and obj = "PyDict [(''type'', PyStr ''error'')]" and t = "PyStr ''error''" and now = 100
      and self = "\<lparr>gdax_ws_url = ''wss://ws-feed.gdax.com'', gdax_product_id = ''ETH-USD'',
        gdax_expiry = 10, gdax_last_price = Some (Wad 7),
        gdax_last_timestamp = 60, gdax_expired = False\<rparr>"]
    on_message_dispatch [where fn = from_number_sample
      and loaded = "Inr (PyDict [(''type'', PyStr ''ticker''), (''price'', PyStr ''n/a'')])"
      and obj = "PyDict [(''type'', PyStr ''ticker''), (''price'', PyStr ''n/a'')]"
      and v = "PyStr ''n/a''" and e = InvalidOperation and now = 100
      and self = "\<lparr>gdax_ws_url = ''wss://ws-feed.gdax.com'', gdax_product_id = ''ETH-USD'',
        gdax_expiry = 10, gdax_last_price = Some (Wad 7),
        gdax_last_timestamp = 60, gdax_expired = False\<rparr>"]
  by (simp add: from_number_sample_def GdaxPriceFeed_init_def)

section \<open>Scaling\<close>

lemma quot_nonzero_iff: "(quot r (10 ^ 9) \<noteq> 0) = (10 ^ 9 \<le> \<bar>r\<bar>)"
proof -
  have "(\<bar>r\<bar> div 10 ^ 9 = 0) = (\<bar>r\<bar> < 10 ^ 9)"
    using div_pos_pos_trivial [of "\<bar>r\<bar>" "10 ^ 9"]
      pos_imp_zdiv_pos_iff [of "10 ^ 9" "\<bar>r\<bar>"]
    by (cases "\<bar>r\<bar> < 10 ^ 9") simp_all
  moreover have "\<bar>r\<bar> < 10 ^ 9 \<or> r \<noteq> 0" by auto
  ultimately show ?thesis
    by (auto simp: quot_def sgn_if)
qed

text \<open>
  Claim C6, amended. \<^verbatim>\<open>ApplyTargetPrice.get_price()\<close> returns nothing when the base feed
  returns nothing, and does not ask the scale source then; otherwise it asks the scale
  source and, when the answer converted to a \<open>Wad\<close> is not zero (a \<open>Ray\<close> of magnitude
  \<^verbatim>\<open>1e-18\<close> at least), returns the base price divided by that \<open>Wad\<close> (base 100.0 and scale
  2.0 give 50.0). The scale source has no absent reading: when asking it fails, the
  exception leaves \<^verbatim>\<open>get_price()\<close>.
\<close>

theorem apply_target_price_cases:
  "(fst (get_price fn ev pf) = Inr None \<longrightarrow>
      fst (get_price fn ev (ApplyTargetPrice pf vx)) = Inr None
      \<and> snd (snd (get_price fn ev (ApplyTargetPrice pf vx))) = snd (snd (get_price fn ev pf)))
   \<and> (fst (get_price fn ev pf) = Inr (Some price) \<and> env_par ev vx = Inr par
        \<and> wad_value (Wad_of_Ray par) \<noteq> 0 \<longrightarrow>
      fst (get_price fn ev (ApplyTargetPrice pf vx)) =
        Inr (Some (Wad (quot (wad_value price * 10 ^ 18) (wad_value (Wad_of_Ray par))))))
   \<and> (wad_value (Wad_of_Ray par) \<noteq> 0) = (10 ^ 9 \<le> \<bar>ray_value par\<bar>)
   \<and> (fst (get_price fn ev pf) = Inr (Some price) \<and> env_par ev vx = Inl e \<longrightarrow>
      fst (get_price fn ev (ApplyTargetPrice pf vx)) = Inl e)"
  using quot_nonzero_iff [of "ray_value par"]
  by (cases "get_price fn ev pf") (auto simp: wad_truediv_def Wad_of_Ray_def)

theorem apply_target_price_cases_witness:
  "fst (get_price from_number_sample
         \<lparr>env_now = 100,
          env_fs = \<lparr>isfile = False, json_load = Inl OSError, getmtime = Inl OSError\<rparr>,
          env_read_as_int = always (Inl CallFailed),
          env_par = always (Inr (Ray 2000000000000000000000000000))\<rparr>
         (ApplyTargetPrice (FixedPriceFeed (Wad 100000000000000000000)) (Vox ''vox''))) =
     Inr (Some (Wad 50000000000000000000))
   \<and> get_price from_number_sample
         \<lparr>env_now = 100,
          env_fs = \<lparr>isfile = False, json_load = Inl OSError, getmtime = Inl OSError\<rparr>,
          env_read_as_int = always (Inl CallFailed),
          env_par = always (Inr (Ray 2000000000000000000000000000))\<rparr>
         (ApplyTargetPrice (SetzerPriceFeed (fst (SetzerPriceFeed_init ''ETHUSD'' 10)))
            (Vox ''vox'')) =
     (Inr None, ApplyTargetPrice (SetzerPriceFeed (fst (SetzerPriceFeed_init ''ETHUSD'' 10)))
                  (Vox ''vox''), [])
   \<and> fst (get_price from_number_sample
         \<lparr>env_now = 100,
          env_fs = \<lparr>isfile = False, json_load = Inl OSError, getmtime = Inl OSError\<rparr>,
          env_read_as_int = always (Inl CallFailed), env_par = always (Inl CallFailed)\<rparr>
         (ApplyTargetPrice (FixedPriceFeed (Wad 100000000000000000000)) (Vox ''vox''))) =
     Inl CallFailed"
  using
    apply_target_price_cases [where fn = from_number_sample
      and ev = "\<lparr>env_now = 100,
          env_fs = \<lparr>isfile = False, json_load = Inl OSError, getmtime = Inl OSError\<rparr>,
          env_read_as_int = always (Inl CallFailed),
          env_par = always (Inr (Ray 2000000000000000000000000000))\<rparr>"
      and pf = "FixedPriceFeed (Wad 100000000000000000000)" and vx = "Vox ''vox''"
      and price = "Wad 100000000000000000000" and par = "Ray 2000000000000000000000000000"]
    apply_target_price_cases [where fn = from_number_sample
      and ev = "\<lparr>env_now = 100,
          env_fs = \<lparr>isfile = False, json_load = Inl OSError, getmtime = Inl OSError\<rparr>,
          env_read_as_int = always (Inl CallFailed),
          env_par = always (Inr (Ray 2000000000000000000000000000))\<rparr>"
      and pf = "SetzerPriceFeed (fst (SetzerPriceFeed_init ''ETHUSD'' 10))" and vx = "Vox ''vox''"]
    apply_target_price_cases [where fn = from_number_sample
      and ev = "\<lparr>env_now = 100,
          env_fs = \<lparr>isfile = False, json_load = Inl OSError, getmtime = Inl OSError\<rparr>,
          env_read_as_int = always (Inl CallFailed), env_par = always (Inl CallFailed)\<rparr>"
      and pf = "FixedPriceFeed (Wad 100000000000000000000)" and vx = "Vox ''vox''"
      and price = "Wad 100000000000000000000" and e = CallFailed]
  by (simp add: always_def Wad_of_Ray_def quot_def SetzerPriceFeed_init_def
      SetzerPriceFeed_get_price_def)

text \<open>
  The base feed has a price and the scale source cannot be read: the call raises, it does
  not return nothing.
\<close>

theorem scale_read_failure_counterexample:
  "fst (get_price from_number_sample
         \<lparr>env_now = 100,
          env_fs = \<lparr>isfile = False, json_load = Inl OSError, getmtime = Inl OSError\<rparr>,
          env_read_as_int = always (Inl CallFailed), env_par = always (Inl CallFailed)\<rparr>
         (ApplyTargetPrice (FixedPriceFeed (Wad 100000000000000000000)) (Vox ''vox''))) =
     Inl CallFailed"
  by (simp add: always_def)

section \<open>The factory\<close>

lemma lower_GDAX: "lower ''GDAX-WebSocket'' = ''gdax-websocket''"
  by code_simp

lemma lower_fixed: "lower ''fixed:42.5'' = ''fixed:42.5''"
  by code_simp

lemma lower_ETHUSD: "lower ''ETHUSD'' = ''ethusd''"
  by code_simp

lemma lower_gdax: "lower ''gdax-websocket'' = ''gdax-websocket''"
  by code_simp

lemma char_lower_f: "char_lower CHR ''f'' = CHR ''f''"
  by code_simp

lemma startswith_Cons_iff:
  "startswith s (d # p) = (\<exists>rest. s = d # rest \<and> startswith rest p)"
  by (cases s) (auto simp: startswith_def)

lemma startswith_f_not_gdax:
  assumes "startswith arg (CHR ''f'' # p)"
  shows "lower arg \<noteq> ''gdax-websocket''"
proof (cases arg)
  case Nil
  then show ?thesis by (simp add: lower_def)
next
  case (Cons c rest)
  with assms have "c = CHR ''f''"
    by (simp add: startswith_def)
  with Cons show ?thesis
    by (simp add: lower_def char_lower_f)
qed

text \<open>
  Claim C7. Whatever the selector, the expiry, the oracle reference and the scale source,
  \<^verbatim>\<open>create_price_feed\<close> returns the selected feed itself: the scale source has no influence
  on the result, and the result is never an \<^verbatim>\<open>ApplyTargetPrice\<close>.
\<close>

theorem factory_never_wraps:
  "create_price_feed fn arg expiry tb vx = create_price_feed fn arg expiry tb None
   \<and> (\<forall>pf v. fst (create_price_feed fn arg expiry tb vx) \<noteq> Inr (ApplyTargetPrice pf v))"
  by (auto simp: create_price_feed_def TubPriceFeed_init_def FixedPriceFeed_init_def
      split_beta split: option.splits sum.splits)

theorem factory_never_wraps_witness:
  "create_price_feed from_number_sample (Some ''fixed:42.5'') 10 None (Some (Vox ''vox'')) =
     (Inr (FixedPriceFeed (Wad 42500000000000000000)),
      [Log INFO (UsingFixedPrice (Wad 42500000000000000000))])
   \<and> (\<forall>pf v. fst (create_price_feed from_number_sample (Some ''fixed:42.5'') 10 None
                     (Some (Vox ''vox''))) \<noteq> Inr (ApplyTargetPrice pf v))"
  using factory_never_wraps [where fn = from_number_sample and arg = "Some ''fixed:42.5''"
      and expiry = 10 and tb = None and vx = "Some (Vox ''vox'')"]
  by (simp add: create_price_feed_def lower_fixed startswith_def from_number_sample_def
      FixedPriceFeed_init_def)

text \<open>
  Claim C8, amended. The factory maps its arguments as follows: a selector that equals
  \<^verbatim>\<open>gdax-websocket\<close> when lowered yields the websocket feed; \<^verbatim>\<open>fixed:\<close> followed by a
  decimal yields a fixed feed whose \<^verbatim>\<open>get_price()\<close> is always that decimal; \<^verbatim>\<open>file:\<close>
  followed by a path yields the file-backed feed of that path; every other selector, the
  empty one too, yields the subprocess-backed feed; no selector with an oracle whose
  \<^verbatim>\<open>pip()\<close> answers yields the on-chain feed; no selector and no oracle raises, with no
  effect before: no background thread has been started.
\<close>

theorem factory_mapping:
  "(lower arg = ''gdax-websocket'' \<longrightarrow>
      create_price_feed fn (Some arg) expiry tb vx =
        (Inr (GdaxPriceFeed (fst (GdaxPriceFeed_init ''wss://ws-feed.gdax.com'' ''ETH-USD''
                                    expiry))), [StartThread]))
   \<and> (startswith arg ''fixed:'' \<and> fn (PyStr (drop 6 arg)) = Inr w \<longrightarrow>
      create_price_feed fn (Some arg) expiry tb vx =
        (Inr (FixedPriceFeed w), [Log INFO (UsingFixedPrice w)])
      \<and> get_price fn' ev (FixedPriceFeed w) = (Inr (Some w), FixedPriceFeed w, []))
   \<and> (startswith arg ''file:'' \<longrightarrow>
      create_price_feed fn (Some arg) expiry tb vx =
        (Inr (FilePriceFeed (fst (FilePriceFeed_init (drop 5 arg) expiry))), []))
   \<and> (lower arg \<noteq> ''gdax-websocket'' \<and> \<not> startswith arg ''fixed:''
        \<and> \<not> startswith arg ''file:'' \<longrightarrow>
      create_price_feed fn (Some arg) expiry tb vx =
        (Inr (SetzerPriceFeed (fst (SetzerPriceFeed_init arg expiry))), [StartThread]))
   \<and> (pip t = Inr a \<longrightarrow>
      create_price_feed fn None expiry (Some t) vx = (Inr (TubPriceFeed a), [IO TubPip]))
   \<and> create_price_feed fn None expiry None vx = (Inl PriceFeedNotSpecified, [])"
proof (intro conjI impI)
  assume "lower arg = ''gdax-websocket''"
  then show "create_price_feed fn (Some arg) expiry tb vx =
        (Inr (GdaxPriceFeed (fst (GdaxPriceFeed_init ''wss://ws-feed.gdax.com'' ''ETH-USD''
                                    expiry))), [StartThread])"
    by (simp add: create_price_feed_def GdaxPriceFeed_init_def)
next
  assume a: "startswith arg ''fixed:'' \<and> fn (PyStr (drop 6 arg)) = Inr w"
  then have "lower arg \<noteq> ''gdax-websocket''"
    using startswith_f_not_gdax [of arg "''ixed:''"] by simp
  with a show "create_price_feed fn (Some arg) expiry tb vx =
        (Inr (FixedPriceFeed w), [Log INFO (UsingFixedPrice w)])"
    by (simp add: create_price_feed_def FixedPriceFeed_init_def)
next
  show "get_price fn' ev (FixedPriceFeed w) = (Inr (Some w), FixedPriceFeed w, [])"
    by simp
next
  assume a: "startswith arg ''file:''"
  then have n: "lower arg \<noteq> ''gdax-websocket''"
    using startswith_f_not_gdax [of arg "''ile:''"] by simp
  from a have "\<not> startswith arg ''fixed:''"
    by (auto simp: startswith_Cons_iff)
  with a n show "create_price_feed fn (Some arg) expiry tb vx =
        (Inr (FilePriceFeed (fst (FilePriceFeed_init (drop 5 arg) expiry))), [])"
    by (simp add: create_price_feed_def FilePriceFeed_init_def)
next
  assume "lower arg \<noteq> ''gdax-websocket'' \<and> \<not> startswith arg ''fixed:''
        \<and> \<not> startswith arg ''file:''"
  then show "create_price_feed fn (Some arg) expiry tb vx =
        (Inr (SetzerPriceFeed (fst (SetzerPriceFeed_init arg expiry))), [StartThread])"
    by (simp add: create_price_feed_def SetzerPriceFeed_init_def)
next
  assume "pip t = Inr a"
  then show "create_price_feed fn None expiry (Some t) vx =
      (Inr (TubPriceFeed a), [IO TubPip])"
    by (simp add: create_price_feed_def TubPriceFeed_init_def)
next
  show "create_price_feed fn None expiry None vx = (Inl PriceFeedNotSpecified, [])"
    by (simp add: create_price_feed_def)
qed

theorem factory_mapping_witness:
  "create_price_feed from_number_sample (Some ''gdax-websocket'') 10 None None =
     (Inr (GdaxPriceFeed (fst (GdaxPriceFeed_init ''wss://ws-feed.gdax.com'' ''ETH-USD'' 10))),
      [StartThread])
   \<and> create_price_feed from_number_sample (Some ''fixed:42.5'') 10 None None =
     (Inr (FixedPriceFeed (Wad 42500000000000000000)),
      [Log INFO (UsingFixedPrice (Wad 42500000000000000000))])
   \<and> create_price_feed from_number_sample (Some ''file:price.json'') 10 None None =
     (Inr (FilePriceFeed (fst (FilePriceFeed_init ''price.json'' 10))), [])
   \<and> create_price_feed from_number_sample (Some ''ETHUSD'') 10 None None =
     (Inr (SetzerPriceFeed (fst (SetzerPriceFeed_init ''ETHUSD'' 10))), [StartThread])
   \<and> create_price_feed from_number_sample None 10 (Some (Tub (Inr ''0xpip''))) None =
     (Inr (TubPriceFeed ''0xpip''), [IO TubPip])
   \<and> create_price_feed from_number_sample None 10 None None = (Inl PriceFeedNotSpecified, [])"
  using
    factory_mapping [where fn = from_number_sample and arg = "''gdax-websocket''"
      and expiry = 10 and tb = None and vx = None]
    factory_mapping [where fn = from_number_sample and arg = "''fixed:42.5''"
      and w = "Wad 42500000000000000000" and expiry = 10 and tb = None and vx = None]
    factory_mapping [where fn = from_number_sample and arg = "''file:price.json''"
      and expiry = 10 and tb = None and vx = None]
    factory_mapping [where fn = from_number_sample and arg = "''ETHUSD''"
      and expiry = 10 and tb = None and vx = None]
    factory_mapping [where fn = from_number_sample and t = "Tub (Inr ''0xpip'')"
      and a = "''0xpip''" and expiry = 10 and vx = None]
  by (simp add: lower_gdax lower_ETHUSD startswith_def from_number_sample_def)

text \<open>
  A selector in capitals is not the exact token, has neither prefix, and still yields the
  websocket feed, not the subprocess-backed one.
\<close>

theorem capital_token_counterexample:
  "create_price_feed from_number_sample (Some ''GDAX-WebSocket'') 10 None None =
     (Inr (GdaxPriceFeed
        \<lparr>gdax_ws_url = ''wss://ws-feed.gdax.com'', gdax_product_id = ''ETH-USD'',
         gdax_expiry = 10, gdax_last_price = None, gdax_last_timestamp = 0,
         gdax_expired = True\<rparr>),
      [StartThread])"
  by (simp add: create_price_feed_def lower_GDAX GdaxPriceFeed_init_def)

section \<open>Transition records\<close>

lemma transitions_append: "transitions (xs @ ys) = transitions xs @ transitions ys"
  by (simp add: transitions_def)

lemma alternates_prepend:
  assumes "alternates b1 rest"
  shows "alternates b (flip_record b b1 @ rest)"
  using assms by (cases b; cases b1) (simp_all add: flip_record_def)

lemma parity_prepend:
  assumes "(bf = b1) = even (length rest)"
  shows "(bf = b) = even (length (flip_record b b1 @ rest))"
  using assms by (cases b; cases b1) (auto simp: flip_record_def)

lemma setzer_step_flip:
  "transitions (snd (setzer_step op s)) =
     flip_record (setzer_expired s) (setzer_expired (fst (setzer_step op s)))"
proof (cases op)
  case (SetzerFetch fetched now)
  then show ?thesis
    by (cases fetched)
      (simp_all add: SetzerPriceFeed_fetch_price_def Let_def transitions_def flip_record_def)
next
  case (SetzerGetPrice now)
  then show ?thesis
    by (simp add: SetzerPriceFeed_get_price_def transitions_def flip_record_def)
qed

lemma setzer_run_alternates:
  "alternates (setzer_expired s) (transitions (snd (setzer_run ops s)))
   \<and> (setzer_expired (fst (setzer_run ops s)) = setzer_expired s) =
       even (length (transitions (snd (setzer_run ops s))))"
proof (induction ops arbitrary: s)
  case Nil
  show ?case by (simp add: transitions_def)
next
  case (Cons op ops)
  let ?s1 = "fst (setzer_step op s)"
  have run: "setzer_run (op # ops) s =
      (fst (setzer_run ops ?s1), snd (setzer_step op s) @ snd (setzer_run ops ?s1))"
    by (simp add: split_beta)
  have tr: "transitions (snd (setzer_run (op # ops) s)) =
      flip_record (setzer_expired s) (setzer_expired ?s1) @
        transitions (snd (setzer_run ops ?s1))"
    by (simp only: run snd_conv transitions_append setzer_step_flip)
  have fin: "fst (setzer_run (op # ops) s) = fst (setzer_run ops ?s1)"
    by (simp only: run fst_conv)
  from Cons.IH [of ?s1] show ?case
    unfolding tr fin
    by (intro conjI alternates_prepend parity_prepend) simp_all
qed

lemma gdax_step_flip:
  "transitions (snd (gdax_step fn op s)) =
     flip_record (gdax_expired s) (gdax_expired (fst (gdax_step fn op s)))"
proof (cases op)
  case (GdaxMessage loaded now)
  then show ?thesis
    by (cases "gdax_message_kind fn loaded")
      (simp_all add: gdax_on_message_kind transitions_def flip_record_def)
next
  case (GdaxGetPrice now)
  then show ?thesis
    by (simp add: GdaxPriceFeed_get_price_def transitions_def flip_record_def)
qed

lemma gdax_run_alternates:
  "alternates (gdax_expired s) (transitions (snd (gdax_run fn ops s)))
   \<and> (gdax_expired (fst (gdax_run fn ops s)) = gdax_expired s) =
       even (length (transitions (snd (gdax_run fn ops s))))"
proof (induction ops arbitrary: s)
  case Nil
  show ?case by (simp add: transitions_def)
next
  case (Cons op ops)
  let ?s1 = "fst (gdax_step fn op s)"
  have run: "gdax_run fn (op # ops) s =
      (fst (gdax_run fn ops ?s1), snd (gdax_step fn op s) @ snd (gdax_run fn ops ?s1))"
    by (simp add: split_beta)
  have tr: "transitions (snd (gdax_run fn (op # ops) s)) =
      flip_record (gdax_expired s) (gdax_expired ?s1) @
        transitions (snd (gdax_run fn ops ?s1))"
    by (simp only: run snd_conv transitions_append gdax_step_flip)
  have fin: "fst (gdax_run fn (op # ops) s) = fst (gdax_run fn ops ?s1)"
    by (simp only: run fst_conv)
  from Cons.IH [of ?s1] show ?case
    unfolding tr fin
    by (intro conjI alternates_prepend parity_prepend) simp_all
qed

lemma bibox_step_flip:
  "transitions (snd (bibox_step op s)) =
     flip_record (bibox_expired s) (bibox_expired (fst (bibox_step op s)))"
proof (cases op)
  case (BiboxFetch fetched now)
  then show ?thesis
    by (cases fetched)
      (simp_all add: BiboxPriceFeed_background_run_once_def Let_def transitions_def
        flip_record_def)
next
  case (BiboxGetPrice now)
  then show ?thesis
    by (simp add: BiboxPriceFeed_get_price_def transitions_def flip_record_def)
qed

lemma bibox_run_alternates:
  "alternates (bibox_expired s) (transitions (snd (bibox_run ops s)))
   \<and> (bibox_expired (fst (bibox_run ops s)) = bibox_expired s) =
       even (length (transitions (snd (bibox_run ops s))))"
proof (induction ops arbitrary: s)
  case Nil
  show ?case by (simp add: transitions_def)
next
  case (Cons op ops)
  let ?s1 = "fst (bibox_step op s)"
  have run: "bibox_run (op # ops) s =
      (fst (bibox_run ops ?s1), snd (bibox_step op s) @ snd (bibox_run ops ?s1))"
    by (simp add: split_beta)
  have tr: "transitions (snd (bibox_run (op # ops) s)) =
      flip_record (bibox_expired s) (bibox_expired ?s1) @
        transitions (snd (bibox_run ops ?s1))"
    by (simp only: run snd_conv transitions_append bibox_step_flip)
  have fin: "fst (bibox_run (op # ops) s) = fst (bibox_run ops ?s1)"
    by (simp only: run fst_conv)
  from Cons.IH [of ?s1] show ?case
    unfolding tr fin
    by (intro conjI alternates_prepend parity_prepend) simp_all
qed

lemma file_read_price_quiet:
  "transitions (snd (FilePriceFeed_read_price fn fs s)) = []
   \<and> file_expired (fst (FilePriceFeed_read_price fn fs s)) = file_expired s"
  by (simp add: FilePriceFeed_read_price_def Let_def transitions_def split: sum.splits)

lemma file_step_flip:
  "transitions (snd (file_step fn op s)) =
     flip_record (file_expired s) (file_expired (fst (file_step fn op s)))"
proof (cases op)
  case (FileGetPrice fs now)
  then show ?thesis
    using file_read_price_quiet [of fn fs s]
    by (simp add: FilePriceFeed_get_price_def transitions_append split_beta flip_record_def)
      (simp add: transitions_def)
qed

lemma file_run_alternates:
  "alternates (file_expired s) (transitions (snd (file_run fn ops s)))
   \<and> (file_expired (fst (file_run fn ops s)) = file_expired s) =
       even (length (transitions (snd (file_run fn ops s))))"
proof (induction ops arbitrary: s)
  case Nil
  show ?case by (simp add: transitions_def)
next
  case (Cons op ops)
  let ?s1 = "fst (file_step fn op s)"
  have run: "file_run fn (op # ops) s =
      (fst (file_run fn ops ?s1), snd (file_step fn op s) @ snd (file_run fn ops ?s1))"
    by (simp add: split_beta)
  have tr: "transitions (snd (file_run fn (op # ops) s)) =
      flip_record (file_expired s) (file_expired ?s1) @
        transitions (snd (file_run fn ops ?s1))"
    by (simp only: run snd_conv transitions_append file_step_flip)
  have fin: "fst (file_run fn (op # ops) s) = fst (file_run fn ops ?s1)"
    by (simp only: run fst_conv)
  from Cons.IH [of ?s1] show ?case
    unfolding tr fin
    by (intro conjI alternates_prepend parity_prepend) simp_all
qed

text \<open>
  Claim C9. For every feed with an expiry and every history of fetches and
  \<^verbatim>\<open>get_price()\<close> calls, a step logs a staleness transition exactly when it flips the
  expired flag, and one record then; so the records of a history come in turn, never two
  "became available" or two "has expired" in a row, and the flag has changed in the end
  exactly when their number is odd.
\<close>

theorem transition_records_once_per_flip:
  "(transitions (snd (setzer_step sop s)) =
      flip_record (setzer_expired s) (setzer_expired (fst (setzer_step sop s)))
    \<and> alternates (setzer_expired s) (transitions (snd (setzer_run sops s)))
    \<and> (setzer_expired (fst (setzer_run sops s)) = setzer_expired s) =
        even (length (transitions (snd (setzer_run sops s)))))
   \<and> (transitions (snd (gdax_step fn gop g)) =
      flip_record (gdax_expired g) (gdax_expired (fst (gdax_step fn gop g)))
    \<and> alternates (gdax_expired g) (transitions (snd (gdax_run fn gops g)))
    \<and> (gdax_expired (fst (gdax_run fn gops g)) = gdax_expired g) =
        even (length (transitions (snd (gdax_run fn gops g)))))
   \<and> (transitions (snd (bibox_step bop b)) =
      flip_record (bibox_expired b) (bibox_expired (fst (bibox_step bop b)))
    \<and> alternates (bibox_expired b) (transitions (snd (bibox_run bops b)))
    \<and> (bibox_expired (fst (bibox_run bops b)) = bibox_expired b) =
        even (length (transitions (snd (bibox_run bops b)))))
   \<and> (transitions (snd (file_step fn fop f)) =
      flip_record (file_expired f) (file_expired (fst (file_step fn fop f)))
    \<and> alternates (file_expired f) (transitions (snd (file_run fn fops f)))
    \<and> (file_expired (fst (file_run fn fops f)) = file_expired f) =
        even (length (transitions (snd (file_run fn fops f)))))"
  using setzer_step_flip [of sop s] setzer_run_alternates [of s sops]
    gdax_step_flip [of fn gop g] gdax_run_alternates [of g fn gops]
    bibox_step_flip [of bop b] bibox_run_alternates [of b bops]
    file_step_flip [of fn fop f] file_run_alternates [of f fn fops]
  by (intro conjI) (erule conjunct1 conjunct2 | assumption)+

text \<open>
  Two fetches, two late calls and a third fetch log three records: the second fetch and
  the second call find the flag already set their way.
\<close>

theorem transition_records_once_per_flip_witness:
  "transitions (snd (setzer_run
       [SetzerFetch (Inr (Wad 7)) 80, SetzerFetch (Inr (Wad 8)) 85, SetzerGetPrice 100,
        SetzerGetPrice 101, SetzerFetch (Inr (Wad 9)) 102]
       (fst (SetzerPriceFeed_init ''ETHUSD'' 10)))) =
     [Log INFO BecameAvailable, Log WARNING HasExpired, Log INFO BecameAvailable]
   \<and> alternates True
       (transitions (snd (setzer_run
          [SetzerFetch (Inr (Wad 7)) 80, SetzerFetch (Inr (Wad 8)) 85, SetzerGetPrice 100,
           SetzerGetPrice 101, SetzerFetch (Inr (Wad 9)) 102]
          (fst (SetzerPriceFeed_init ''ETHUSD'' 10)))))"
  using transition_records_once_per_flip [where s = "fst (SetzerPriceFeed_init ''ETHUSD'' 10)"
      and sops = "[SetzerFetch (Inr (Wad 7)) 80, SetzerFetch (Inr (Wad 8)) 85,
        SetzerGetPrice 100, SetzerGetPrice 101, SetzerFetch (Inr (Wad 9)) 102]"]
  by (simp add: SetzerPriceFeed_init_def SetzerPriceFeed_fetch_price_def
      SetzerPriceFeed_get_price_def transitions_def)

section \<open>Publication\<close>

text \<open>
  Claim C10, amended. The background thread publishes a reading by two separate
  assignments, the price first and the timestamp after it, with no lock. A \<^verbatim>\<open>get_price()\<close>
  that runs between them sees the new price with the old timestamp; none sees an old price
  with the new timestamp; and after the last write the object is the one a whole
  publication returns.
\<close>

theorem publication_write_order:
  "(\<forall>s1 \<in> set (observable_states (SetzerPriceFeed_fetch_price_writes p now) s).
      (setzer_price s1, setzer_timestamp s1) \<in>
        {(setzer_price s, setzer_timestamp s), (Some p, setzer_timestamp s), (Some p, now)})
   \<and> last (observable_states (SetzerPriceFeed_fetch_price_writes p now) s) =
       fst (SetzerPriceFeed_fetch_price (Inr p) now s)
   \<and> (\<forall>g1 \<in> set (observable_states (GdaxPriceFeed_process_ticker_writes p now) g).
      (gdax_last_price g1, gdax_last_timestamp g1) \<in>
        {(gdax_last_price g, gdax_last_timestamp g), (Some p, gdax_last_timestamp g),
         (Some p, now)})
   \<and> (getitem obj ''price'' = Inr v \<and> fn v = Inr p \<longrightarrow>
        map_sum id fst (GdaxPriceFeed_process_ticker fn obj now g) =
          Inr (last (observable_states (GdaxPriceFeed_process_ticker_writes p now) g)))
   \<and> (\<forall>b1 \<in> set (observable_states (BiboxPriceFeed_background_run_writes p now) b).
      (bibox_last_price b1, bibox_last_timestamp b1) \<in>
        {(bibox_last_price b, bibox_last_timestamp b), (Some p, bibox_last_timestamp b),
         (Some p, now)})
   \<and> last (observable_states (BiboxPriceFeed_background_run_writes p now) b) =
       fst (BiboxPriceFeed_background_run_once (Inr p) now b)"
proof (intro conjI impI)
  show "\<forall>s1 \<in> set (observable_states (SetzerPriceFeed_fetch_price_writes p now) s).
      (setzer_price s1, setzer_timestamp s1) \<in>
        {(setzer_price s, setzer_timestamp s), (Some p, setzer_timestamp s), (Some p, now)}"
    by (simp add: SetzerPriceFeed_fetch_price_writes_def)
  show "last (observable_states (SetzerPriceFeed_fetch_price_writes p now) s) =
       fst (SetzerPriceFeed_fetch_price (Inr p) now s)"
    by (simp add: SetzerPriceFeed_fetch_price_writes_def SetzerPriceFeed_fetch_price_def Let_def)
  show "\<forall>g1 \<in> set (observable_states (GdaxPriceFeed_process_ticker_writes p now) g).
      (gdax_last_price g1, gdax_last_timestamp g1) \<in>
        {(gdax_last_price g, gdax_last_timestamp g), (Some p, gdax_last_timestamp g),
         (Some p, now)}"
    by (simp add: GdaxPriceFeed_process_ticker_writes_def)
  show "\<forall>b1 \<in> set (observable_states (BiboxPriceFeed_background_run_writes p now) b).
      (bibox_last_price b1, bibox_last_timestamp b1) \<in>
        {(bibox_last_price b, bibox_last_timestamp b), (Some p, bibox_last_timestamp b),
         (Some p, now)}"
    by (simp add: BiboxPriceFeed_background_run_writes_def)
  show "last (observable_states (BiboxPriceFeed_background_run_writes p now) b) =
       fst (BiboxPriceFeed_background_run_once (Inr p) now b)"
    by (simp add: BiboxPriceFeed_background_run_writes_def
        BiboxPriceFeed_background_run_once_def Let_def)
next
  assume "getitem obj ''price'' = Inr v \<and> fn v = Inr p"
  then show "map_sum id fst (GdaxPriceFeed_process_ticker fn obj now g) =
      Inr (last (observable_states (GdaxPriceFeed_process_ticker_writes p now) g))"
    by (simp add: GdaxPriceFeed_process_ticker_writes_def GdaxPriceFeed_process_ticker_def
        Let_def)
qed

theorem publication_write_order_witness:
  "map (\<lambda>s1. (setzer_price s1, setzer_timestamp s1))
     (observable_states (SetzerPriceFeed_fetch_price_writes (Wad 2) 105)
        \<lparr>setzer_source = ''ETHUSD'', setzer_expiry = 10, setzer_price = Some (Wad 1),
         setzer_retries = 0, setzer_timestamp = 100, setzer_expired = False\<rparr>) =
     [(Some (Wad 1), 100), (Some (Wad 2), 100), (Some (Wad 2), 100), (Some (Wad 2), 105),
      (Some (Wad 2), 105)]
   \<and> SetzerPriceFeed_fetch_price (Inr (Wad 2)) 105
        \<lparr>setzer_source = ''ETHUSD'', setzer_expiry = 10, setzer_price = Some (Wad 1),
         setzer_retries = 0, setzer_timestamp = 100, setzer_expired = False\<rparr> =
       (last (observable_states (SetzerPriceFeed_fetch_price_writes (Wad 2) 105)
          \<lparr>setzer_source = ''ETHUSD'', setzer_expiry = 10, setzer_price = Some (Wad 1),
           setzer_retries = 0, setzer_timestamp = 100, setzer_expired = False\<rparr>),
        [IO SetzerPrice, Log DEBUG (FetchedPrice (Wad 2))])
   \<and> map_sum id fst (GdaxPriceFeed_process_ticker from_number_sample
        (PyDict [(''type'', PyStr ''ticker''), (''price'', PyStr ''305.12'')]) 105
        (fst (GdaxPriceFeed_init ''wss://ws-feed.gdax.com'' ''ETH-USD'' 10))) =
       Inr (last (observable_states
                    (GdaxPriceFeed_process_ticker_writes (Wad 305120000000000000000) 105)
                    (fst (GdaxPriceFeed_init ''wss://ws-feed.gdax.com'' ''ETH-USD'' 10))))"
  using publication_write_order [where p = "Wad 2" and now = 105
      and s = "\<lparr>setzer_source = ''ETHUSD'', setzer_expiry = 10, setzer_price = Some (Wad 1),
         setzer_retries = 0, setzer_timestamp = 100, setzer_expired = False\<rparr>"]
    publication_write_order [where p = "Wad 305120000000000000000" and now = 105
      and fn = from_number_sample and v = "PyStr ''305.12''"
      and obj = "PyDict [(''type'', PyStr ''ticker''), (''price'', PyStr ''305.12'')]"
      and g = "fst (GdaxPriceFeed_init ''wss://ws-feed.gdax.com'' ''ETH-USD'' 10)"]
  by (simp add: from_number_sample_def SetzerPriceFeed_fetch_price_def
      SetzerPriceFeed_fetch_price_writes_def)

text \<open>
  A feed holds price 1 of instant 100; a fetch at 105 brings price 2. After the first
  write a call at 106 is answered with price 2, found fresh by the timestamp 100.
\<close>

theorem torn_reading_counterexample:
  "observable_states (SetzerPriceFeed_fetch_price_writes (Wad 2) 105)
     \<lparr>setzer_source = ''ETHUSD'', setzer_expiry = 10, setzer_price = Some (Wad 1),
      setzer_retries = 0, setzer_timestamp = 100, setzer_expired = False\<rparr> ! 1 =
     \<lparr>setzer_source = ''ETHUSD'', setzer_expiry = 10, setzer_price = Some (Wad 2),
      setzer_retries = 0, setzer_timestamp = 100, setzer_expired = False\<rparr>
   \<and> fst (SetzerPriceFeed_get_price 106
       (observable_states (SetzerPriceFeed_fetch_price_writes (Wad 2) 105)
          \<lparr>setzer_source = ''ETHUSD'', setzer_expiry = 10, setzer_price = Some (Wad 1),
           setzer_retries = 0, setzer_timestamp = 100, setzer_expired = False\<rparr> ! 1)) =
     Some (Wad 2)"
  by (simp add: SetzerPriceFeed_fetch_price_writes_def SetzerPriceFeed_get_price_def)

end
